theory Spec2Isabelle
  imports Complex_Main
begin

section \<open>Data model of \<open>backend/main.py\<close>\<close>

text \<open>
  The tables of the SQLAlchemy models, one record per mapped class. A \<open>Float\<close> column
  is a \<open>real\<close> (exact arithmetic: rounding is not part of the model), an \<open>Integer\<close>
  column an \<open>int\<close>, a \<open>String\<close> column a \<open>string\<close>, a \<open>DateTime\<close> column a
  clock reading. The relationship \<open>detalles\<close> of a sale or of a pending account is the
  list of its detail rows in insertion order, held by the parent row; the detail rows'
  own keys are not needed by any endpoint and are left out.
\<close>

type_synonym datetime = nat

record ProductoDB =
  p_id :: int
  p_nombre :: string
  p_codigo_barras :: string
  p_precio :: real
  p_cantidad :: int

record DetalleVentaDB =
  dv_producto_id :: int
  dv_cantidad :: int
  dv_precio_unitario :: real

record VentaDB =
  v_id :: int
  v_fecha :: datetime
  v_total :: real
  v_detalles :: "DetalleVentaDB list"

record DetalleCuentaPendienteDB =
  dc_producto_id :: int
  dc_cantidad :: int
  dc_precio_unitario :: real

record CuentaPendienteDB =
  c_id :: int
  c_nombre_cliente :: string
  c_fecha_creacion :: datetime
  c_estado :: string
  c_detalles :: "DetalleCuentaPendienteDB list"
  c_total :: real

text \<open>The Pydantic request schemas.\<close>

record ProductoCreate =
  pc_nombre :: string
  pc_codigo_barras :: string
  pc_precio :: real
  pc_cantidad :: int

record DetalleVentaCreate =
  dvc_producto_id :: int
  dvc_cantidad :: int

record VentaCreate =
  vc_detalles :: "DetalleVentaCreate list"

record DetalleCuentaPendienteCreate =
  dcc_producto_id :: int
  dcc_cantidad :: int

record CuentaPendienteCreate =
  cc_nombre_cliente :: string
  cc_detalles :: "DetalleCuentaPendienteCreate list"

record AgregarProductosCuentaRequest =
  ar_detalles :: "DetalleCuentaPendienteCreate list"

text \<open>The Pydantic response schemas.\<close>

record DetalleVenta =
  rdv_producto_id :: int
  rdv_cantidad :: int
  rdv_precio_unitario :: real
  rdv_nombre_producto :: "string option"

record Venta =
  rv_id :: int
  rv_fecha :: datetime
  rv_total :: real
  rv_detalles :: "DetalleVenta list"

record DetalleCuentaPendiente =
  rdc_producto_id :: int
  rdc_cantidad :: int
  rdc_precio_unitario :: real
  rdc_nombre_producto :: "string option"

record CuentaPendiente =
  rc_id :: int
  rc_nombre_cliente :: string
  rc_fecha_creacion :: datetime
  rc_estado :: string
  rc_total :: real
  rc_detalles :: "DetalleCuentaPendiente list"

text \<open>
  Every failure of an endpoint is an \<open>HTTPException\<close> with a status code and a detail
  message, except the \<open>AttributeError\<close> that \<open>d.producto.nombre\<close> raises when the
  product of a detail row no longer exists (\<open>d.producto\<close> is \<open>None\<close>). The detail
  messages are the source's string literals and f-strings, one constructor each, with
  the interpolated value as argument.
\<close>

datatype detail =
    Codigo_de_barras_ya_registrado
  | Producto_no_encontrado
  | Error_al_actualizar_el_producto
  | Producto_con_id_no_encontrado int
  | Stock_insuficiente_para string
  | Cuenta_pendiente_no_encontrada

datatype error = HTTPException int detail | AttributeError

section \<open>The database session\<close>

text \<open>
  The database holds the three tables. A session (\<open>SessionLocal()\<close>, with
  \<open>autoflush=False\<close>) works on its own copy of the rows: attribute assignments and
  \<open>db.add\<close> change the working copy only, \<open>db.commit()\<close> writes the working copy to
  the database, \<open>db.rollback()\<close> and \<open>db.close()\<close> throw the working copy away.
  A query returns the session's object for the row it finds (the identity map), so a
  read sees the assignments made earlier in the same session, flushed or not. The
  endpoints filter on columns they do not assign before the query, so a query on the
  working copy finds the rows the SQL query finds. An assignment to an attribute of a
  row's object is flushed as an \<open>UPDATE\<close> of the row with that primary key.
\<close>

record database =
  productos :: "ProductoDB list"
  ventas :: "VentaDB list"
  cuentas_pendientes :: "CuentaPendienteDB list"

record session =
  committed :: database
  working :: database

definition SessionLocal :: "database \<Rightarrow> session" where
  "SessionLocal d = \<lparr>committed = d, working = d\<rparr>"

definition commit :: "session \<Rightarrow> session" where
  "commit db = db\<lparr>committed := working db\<rparr>"

definition rollback :: "session \<Rightarrow> session" where
  "rollback db = db\<lparr>working := committed db\<rparr>"

definition close :: "session \<Rightarrow> database" where
  "close db = committed db"

text \<open>
  \<open>get_db\<close>: the dependency that gives an endpoint its session and closes it when the
  endpoint returns or raises (\<open>try: yield db finally: db.close()\<close>).
\<close>

definition get_db :: "(session \<Rightarrow> 'a \<times> session) \<Rightarrow> database \<Rightarrow> 'a \<times> database" where
  "get_db endpoint d = (case endpoint (SessionLocal d) of (r, db) \<Rightarrow> (r, close db))"

text \<open>
  The key of a new row: SQLite gives an \<open>INTEGER PRIMARY KEY\<close> column one more than
  the largest key in the table, 1 in an empty table.
\<close>

definition next_id :: "int list \<Rightarrow> int" where
  "next_id ids = foldr max ids 0 + 1"

text \<open>\<open>db.query(ProductoDB).filter(ProductoDB.id == producto_id).first()\<close>\<close>

definition query_producto :: "session \<Rightarrow> int \<Rightarrow> ProductoDB option" where
  "query_producto db producto_id = find (\<lambda>p. p_id p = producto_id) (productos (working db))"

text \<open>
  An assignment to \<open>producto.cantidad\<close>: the row of that key gets the new quantity
  (the flush is \<open>UPDATE productos SET cantidad = ? WHERE id = ?\<close>).
\<close>

definition set_cantidad :: "session \<Rightarrow> int \<Rightarrow> int \<Rightarrow> session" where
  "set_cantidad db producto_id n =
     db\<lparr>working := (working db)\<lparr>productos :=
        map (\<lambda>p. if p_id p = producto_id then p\<lparr>p_cantidad := n\<rparr> else p)
          (productos (working db))\<rparr>\<rparr>"

text \<open>\<open>db.add(venta_db)\<close>: the new sale is pending in the session.\<close>

definition add_venta :: "VentaDB \<Rightarrow> session \<Rightarrow> session" where
  "add_venta venta_db db =
     db\<lparr>working := (working db)\<lparr>ventas := ventas (working db) @ [venta_db]\<rparr>\<rparr>"

section \<open>Sales\<close>

text \<open>
  The loop of \<open>crear_venta\<close> over \<open>venta.detalles\<close>, with its two accumulators
  \<open>total\<close> and \<open>detalles_db\<close>. A \<open>raise\<close> leaves the loop with the session as it is
  at that moment: the decrements of the earlier items are still in its working copy.
\<close>

fun crear_venta_items ::
  "DetalleVentaCreate list \<Rightarrow> real \<Rightarrow> DetalleVentaDB list \<Rightarrow> session
     \<Rightarrow> (error + real \<times> DetalleVentaDB list) \<times> session" where
  "crear_venta_items [] total' detalles_db db = (Inr (total', detalles_db), db)"
| "crear_venta_items (item # items) total' detalles_db db =
     (case query_producto db (dvc_producto_id item) of
        None \<Rightarrow>
          (Inl (HTTPException 404 (Producto_con_id_no_encontrado (dvc_producto_id item))), db)
      | Some producto \<Rightarrow>
          if p_cantidad producto < dvc_cantidad item
          then (Inl (HTTPException 400 (Stock_insuficiente_para (p_nombre producto))), db)
          else crear_venta_items items
                 (total' + p_precio producto * of_int (dvc_cantidad item))
                 (detalles_db @
                    [\<lparr>dv_producto_id = p_id producto, dv_cantidad = dvc_cantidad item,
                      dv_precio_unitario = p_precio producto\<rparr>])
                 (set_cantidad db (p_id producto) (p_cantidad producto - dvc_cantidad item)))"

text \<open>
  The response's detail list: \<open>d.producto.nombre\<close> reads the product of the detail
  row and raises \<open>AttributeError\<close> when there is none.
\<close>

fun respuesta_detalles_venta :: "session \<Rightarrow> DetalleVentaDB list \<Rightarrow> error + DetalleVenta list" where
  "respuesta_detalles_venta db [] = Inr []"
| "respuesta_detalles_venta db (d # ds) =
     (case query_producto db (dv_producto_id d) of
        None \<Rightarrow> Inl AttributeError
      | Some producto \<Rightarrow>
          (case respuesta_detalles_venta db ds of
             Inl e \<Rightarrow> Inl e
           | Inr detalles \<Rightarrow>
               Inr (\<lparr>rdv_producto_id = dv_producto_id d, rdv_cantidad = dv_cantidad d,
                     rdv_precio_unitario = dv_precio_unitario d,
                     rdv_nombre_producto = Some (p_nombre producto)\<rparr> # detalles)))"

text \<open>
  \<open>crear_venta\<close>. The clock reading \<open>now\<close> is the value \<open>func.now()\<close> gives the new
  row's \<open>fecha\<close>.
\<close>

definition crear_venta :: "datetime \<Rightarrow> VentaCreate \<Rightarrow> session \<Rightarrow> (error + Venta) \<times> session" where
  "crear_venta now venta db =
     (case crear_venta_items (vc_detalles venta) 0 [] db of
        (Inl e, db1) \<Rightarrow> (Inl e, db1)
      | (Inr (total', detalles_db), db1) \<Rightarrow>
          let venta_db = \<lparr>v_id = next_id (map v_id (ventas (working db1))), v_fecha = now,
                           v_total = total', v_detalles = detalles_db\<rparr>;
              db2 = commit (add_venta venta_db db1)
          in (case respuesta_detalles_venta db2 (v_detalles venta_db) of
                Inl e \<Rightarrow> (Inl e, db2)
              | Inr detalles \<Rightarrow>
                  (Inr \<lparr>rv_id = v_id venta_db, rv_fecha = v_fecha venta_db,
                        rv_total = v_total venta_db, rv_detalles = detalles\<rparr>, db2)))"

section \<open>Products\<close>

text \<open>\<open>db.add(db_producto)\<close>, \<open>db.delete(db_producto)\<close> and the \<open>setattr\<close> loop.\<close>

definition add_producto :: "ProductoDB \<Rightarrow> session \<Rightarrow> session" where
  "add_producto db_producto db =
     db\<lparr>working := (working db)\<lparr>productos := productos (working db) @ [db_producto]\<rparr>\<rparr>"

definition delete_producto :: "int \<Rightarrow> session \<Rightarrow> session" where
  "delete_producto producto_id db =
     db\<lparr>working := (working db)\<lparr>productos :=
        filter (\<lambda>p. p_id p \<noteq> producto_id) (productos (working db))\<rparr>\<rparr>"

definition setattr_producto :: "int \<Rightarrow> ProductoCreate \<Rightarrow> session \<Rightarrow> session" where
  "setattr_producto producto_id producto db =
     db\<lparr>working := (working db)\<lparr>productos :=
        map (\<lambda>p. if p_id p = producto_id
                 then p\<lparr>p_nombre := pc_nombre producto,
                        p_codigo_barras := pc_codigo_barras producto,
                        p_precio := pc_precio producto, p_cantidad := pc_cantidad producto\<rparr>
                 else p)
          (productos (working db))\<rparr>\<rparr>"

text \<open>
  \<open>crear_producto\<close>. The commit raises when the \<open>unique\<close> constraint of
  \<open>codigo_barras\<close> is violated: another row has the new row's barcode.
\<close>

definition crear_producto :: "ProductoCreate \<Rightarrow> session \<Rightarrow> (error + ProductoDB) \<times> session" where
  "crear_producto producto db =
     (let db_producto = \<lparr>p_id = next_id (map p_id (productos (working db))),
                          p_nombre = pc_nombre producto,
                          p_codigo_barras = pc_codigo_barras producto,
                          p_precio = pc_precio producto, p_cantidad = pc_cantidad producto\<rparr>;
          db1 = add_producto db_producto db
      in if list_ex (\<lambda>p. p_codigo_barras p = pc_codigo_barras producto) (productos (working db))
         then (Inl (HTTPException 400 Codigo_de_barras_ya_registrado), rollback db1)
         else (Inr db_producto, commit db1))"

definition editar_producto ::
  "int \<Rightarrow> ProductoCreate \<Rightarrow> session \<Rightarrow> (error + ProductoDB) \<times> session" where
  "editar_producto producto_id producto db =
     (case query_producto db producto_id of
        None \<Rightarrow> (Inl (HTTPException 404 Producto_no_encontrado), db)
      | Some db_producto \<Rightarrow>
          let db1 = setattr_producto (p_id db_producto) producto db
          in if list_ex (\<lambda>p. p_id p \<noteq> p_id db_producto \<and>
                               p_codigo_barras p = pc_codigo_barras producto)
                  (productos (working db))
             then (Inl (HTTPException 400 Error_al_actualizar_el_producto), rollback db1)
             else (Inr (db_producto\<lparr>p_nombre := pc_nombre producto,
                          p_codigo_barras := pc_codigo_barras producto,
                          p_precio := pc_precio producto,
                          p_cantidad := pc_cantidad producto\<rparr>), commit db1))"

definition eliminar_producto :: "int \<Rightarrow> session \<Rightarrow> (error + unit) \<times> session" where
  "eliminar_producto producto_id db =
     (case query_producto db producto_id of
        None \<Rightarrow> (Inl (HTTPException 404 Producto_no_encontrado), db)
      | Some db_producto \<Rightarrow> (Inr (), commit (delete_producto (p_id db_producto) db)))"

section \<open>Pending accounts\<close>

text \<open>The loop of \<open>crear_cuenta_pendiente\<close> over \<open>cuenta.detalles\<close>.\<close>

fun crear_cuenta_pendiente_items ::
  "DetalleCuentaPendienteCreate list \<Rightarrow> real \<Rightarrow> DetalleCuentaPendienteDB list \<Rightarrow> session
     \<Rightarrow> (error + real \<times> DetalleCuentaPendienteDB list) \<times> session" where
  "crear_cuenta_pendiente_items [] total' detalles_db db = (Inr (total', detalles_db), db)"
| "crear_cuenta_pendiente_items (item # items) total' detalles_db db =
     (case query_producto db (dcc_producto_id item) of
        None \<Rightarrow>
          (Inl (HTTPException 404 (Producto_con_id_no_encontrado (dcc_producto_id item))), db)
      | Some producto \<Rightarrow>
          if p_cantidad producto < dcc_cantidad item
          then (Inl (HTTPException 400 (Stock_insuficiente_para (p_nombre producto))), db)
          else crear_cuenta_pendiente_items items
                 (total' + p_precio producto * of_int (dcc_cantidad item))
                 (detalles_db @
                    [\<lparr>dc_producto_id = p_id producto, dc_cantidad = dcc_cantidad item,
                      dc_precio_unitario = p_precio producto\<rparr>])
                 (set_cantidad db (p_id producto) (p_cantidad producto - dcc_cantidad item)))"

fun respuesta_detalles_cuenta ::
  "session \<Rightarrow> DetalleCuentaPendienteDB list \<Rightarrow> error + DetalleCuentaPendiente list" where
  "respuesta_detalles_cuenta db [] = Inr []"
| "respuesta_detalles_cuenta db (d # ds) =
     (case query_producto db (dc_producto_id d) of
        None \<Rightarrow> Inl AttributeError
      | Some producto \<Rightarrow>
          (case respuesta_detalles_cuenta db ds of
             Inl e \<Rightarrow> Inl e
           | Inr detalles \<Rightarrow>
               Inr (\<lparr>rdc_producto_id = dc_producto_id d, rdc_cantidad = dc_cantidad d,
                     rdc_precio_unitario = dc_precio_unitario d,
                     rdc_nombre_producto = Some (p_nombre producto)\<rparr> # detalles)))"

text \<open>The response for one account row, as the four account endpoints build it.\<close>

definition respuesta_cuenta :: "session \<Rightarrow> CuentaPendienteDB \<Rightarrow> error + CuentaPendiente" where
  "respuesta_cuenta db c =
     (case respuesta_detalles_cuenta db (c_detalles c) of
        Inl e \<Rightarrow> Inl e
      | Inr detalles \<Rightarrow>
          Inr \<lparr>rc_id = c_id c, rc_nombre_cliente = c_nombre_cliente c,
                rc_fecha_creacion = c_fecha_creacion c, rc_estado = c_estado c,
                rc_total = c_total c, rc_detalles = detalles\<rparr>)"

definition add_cuenta :: "CuentaPendienteDB \<Rightarrow> session \<Rightarrow> session" where
  "add_cuenta cuenta_db db =
     db\<lparr>working := (working db)\<lparr>cuentas_pendientes :=
        cuentas_pendientes (working db) @ [cuenta_db]\<rparr>\<rparr>"

text \<open>
  \<open>crear_cuenta_pendiente\<close>. The new row gets the column defaults: \<open>estado\<close> is
  \<open>"pendiente"\<close>, \<open>fecha_creacion\<close> is the clock reading.
\<close>

definition crear_cuenta_pendiente ::
  "datetime \<Rightarrow> CuentaPendienteCreate \<Rightarrow> session \<Rightarrow> (error + CuentaPendiente) \<times> session" where
  "crear_cuenta_pendiente now cuenta db =
     (case crear_cuenta_pendiente_items (cc_detalles cuenta) 0 [] db of
        (Inl e, db1) \<Rightarrow> (Inl e, db1)
      | (Inr (total', detalles_db), db1) \<Rightarrow>
          let cuenta_db = \<lparr>c_id = next_id (map c_id (cuentas_pendientes (working db1))),
                            c_nombre_cliente = cc_nombre_cliente cuenta,
                            c_fecha_creacion = now, c_estado = ''pendiente'',
                            c_detalles = detalles_db, c_total = total'\<rparr>;
              db2 = commit (add_cuenta cuenta_db db1)
          in (respuesta_cuenta db2 cuenta_db, db2))"

text \<open>\<open>listar_cuentas_pendientes\<close>: the rows whose \<open>estado\<close> is \<open>"pendiente"\<close>.\<close>

fun respuesta_cuentas :: "session \<Rightarrow> CuentaPendienteDB list \<Rightarrow> error + CuentaPendiente list" where
  "respuesta_cuentas db [] = Inr []"
| "respuesta_cuentas db (c # cs) =
     (case respuesta_cuenta db c of
        Inl e \<Rightarrow> Inl e
      | Inr r \<Rightarrow>
          (case respuesta_cuentas db cs of
             Inl e \<Rightarrow> Inl e
           | Inr resultado \<Rightarrow> Inr (r # resultado)))"

definition listar_cuentas_pendientes :: "session \<Rightarrow> (error + CuentaPendiente list) \<times> session" where
  "listar_cuentas_pendientes db =
     (let cuentas = filter (\<lambda>c. c_estado c = ''pendiente'') (cuentas_pendientes (working db))
      in (respuesta_cuentas db cuentas, db))"

text \<open>
  The query of \<open>pagar_cuenta_pendiente\<close> and \<open>agregar_productos_cuenta_pendiente\<close>:
  \<open>filter(CuentaPendienteDB.id == cuenta_id, CuentaPendienteDB.estado == "pendiente").first()\<close>
\<close>

definition query_cuenta_pendiente :: "session \<Rightarrow> int \<Rightarrow> CuentaPendienteDB option" where
  "query_cuenta_pendiente db cuenta_id =
     find (\<lambda>c. c_id c = cuenta_id \<and> c_estado c = ''pendiente'')
       (cuentas_pendientes (working db))"

text \<open>
  Assignments to \<open>cuenta.estado\<close> and \<open>cuenta.total\<close>, and \<open>db.add(detalle)\<close> for a
  detail whose \<open>cuenta_id\<close> is the account's key: each changes the row of that key.
\<close>

definition set_estado :: "session \<Rightarrow> int \<Rightarrow> string \<Rightarrow> session" where
  "set_estado db cuenta_id e =
     db\<lparr>working := (working db)\<lparr>cuentas_pendientes :=
        map (\<lambda>c. if c_id c = cuenta_id then c\<lparr>c_estado := e\<rparr> else c)
          (cuentas_pendientes (working db))\<rparr>\<rparr>"

definition set_total :: "session \<Rightarrow> int \<Rightarrow> real \<Rightarrow> session" where
  "set_total db cuenta_id t =
     db\<lparr>working := (working db)\<lparr>cuentas_pendientes :=
        map (\<lambda>c. if c_id c = cuenta_id then c\<lparr>c_total := t\<rparr> else c)
          (cuentas_pendientes (working db))\<rparr>\<rparr>"

definition add_detalle :: "int \<Rightarrow> DetalleCuentaPendienteDB \<Rightarrow> session \<Rightarrow> session" where
  "add_detalle cuenta_id detalle db =
     db\<lparr>working := (working db)\<lparr>cuentas_pendientes :=
        map (\<lambda>c. if c_id c = cuenta_id then c\<lparr>c_detalles := c_detalles c @ [detalle]\<rparr> else c)
          (cuentas_pendientes (working db))\<rparr>\<rparr>"

text \<open>\<open>db.refresh(cuenta)\<close>: the object's attributes are read again from its row.\<close>

definition refresh_cuenta :: "session \<Rightarrow> CuentaPendienteDB \<Rightarrow> CuentaPendienteDB" where
  "refresh_cuenta db cuenta =
     (case find (\<lambda>c. c_id c = c_id cuenta) (cuentas_pendientes (working db)) of
        None \<Rightarrow> cuenta
      | Some c \<Rightarrow> c)"

definition pagar_cuenta_pendiente ::
  "datetime \<Rightarrow> int \<Rightarrow> session \<Rightarrow> (error + CuentaPendiente) \<times> session" where
  "pagar_cuenta_pendiente now cuenta_id db =
     (case query_cuenta_pendiente db cuenta_id of
        None \<Rightarrow> (Inl (HTTPException 404 Cuenta_pendiente_no_encontrada), db)
      | Some cuenta \<Rightarrow>
          let detalles_venta =
                map (\<lambda>d. \<lparr>dv_producto_id = dc_producto_id d, dv_cantidad = dc_cantidad d,
                           dv_precio_unitario = dc_precio_unitario d\<rparr>) (c_detalles cuenta);
              venta_db = \<lparr>v_id = next_id (map v_id (ventas (working db))), v_fecha = now,
                           v_total = c_total cuenta, v_detalles = detalles_venta\<rparr>;
              db1 = add_venta venta_db db;
              db2 = commit (set_estado db1 (c_id cuenta) ''pagada'')
          in (respuesta_cuenta db2 (refresh_cuenta db2 cuenta), db2))"

text \<open>
  The loop of \<open>agregar_productos_cuenta_pendiente\<close> over \<open>req.detalles\<close>; each new
  detail row is added to the session as soon as it is built.
\<close>

fun agregar_productos_items ::
  "DetalleCuentaPendienteCreate list \<Rightarrow> CuentaPendienteDB \<Rightarrow> real \<Rightarrow> session
     \<Rightarrow> (error + real) \<times> session" where
  "agregar_productos_items [] cuenta total_agregado db = (Inr total_agregado, db)"
| "agregar_productos_items (item # items) cuenta total_agregado db =
     (case query_producto db (dcc_producto_id item) of
        None \<Rightarrow>
          (Inl (HTTPException 404 (Producto_con_id_no_encontrado (dcc_producto_id item))), db)
      | Some producto \<Rightarrow>
          if p_cantidad producto < dcc_cantidad item
          then (Inl (HTTPException 400 (Stock_insuficiente_para (p_nombre producto))), db)
          else agregar_productos_items items cuenta
                 (total_agregado + p_precio producto * of_int (dcc_cantidad item))
                 (add_detalle (c_id cuenta)
                    \<lparr>dc_producto_id = p_id producto, dc_cantidad = dcc_cantidad item,
                      dc_precio_unitario = p_precio producto\<rparr>
                    (set_cantidad db (p_id producto)
                       (p_cantidad producto - dcc_cantidad item))))"

definition agregar_productos_cuenta_pendiente ::
  "int \<Rightarrow> AgregarProductosCuentaRequest \<Rightarrow> session \<Rightarrow> (error + CuentaPendiente) \<times> session" where
  "agregar_productos_cuenta_pendiente cuenta_id req db =
     (case query_cuenta_pendiente db cuenta_id of
        None \<Rightarrow> (Inl (HTTPException 404 Cuenta_pendiente_no_encontrada), db)
      | Some cuenta \<Rightarrow>
          (case agregar_productos_items (ar_detalles req) cuenta 0 db of
             (Inl e, db1) \<Rightarrow> (Inl e, db1)
           | (Inr total_agregado, db1) \<Rightarrow>
               let db2 = commit (set_total db1 (c_id cuenta) (c_total cuenta + total_agregado))
               in (respuesta_cuenta db2 (refresh_cuenta db2 cuenta), db2)))"

section \<open>Sequences of requests\<close>

text \<open>
  A request to one of the mutating endpoints, and the database it leaves behind,
  whether the endpoint returned or raised.
\<close>

datatype request =
    Crear_producto ProductoCreate
  | Editar_producto int ProductoCreate
  | Eliminar_producto int
  | Crear_venta datetime VentaCreate
  | Crear_cuenta_pendiente datetime CuentaPendienteCreate
  | Agregar_productos int AgregarProductosCuentaRequest
  | Pagar_cuenta_pendiente datetime int

fun handle :: "request \<Rightarrow> database \<Rightarrow> database" where
  "handle (Crear_producto producto) d = snd (get_db (crear_producto producto) d)"
| "handle (Editar_producto producto_id producto) d =
     snd (get_db (editar_producto producto_id producto) d)"
| "handle (Eliminar_producto producto_id) d = snd (get_db (eliminar_producto producto_id) d)"
| "handle (Crear_venta now venta) d = snd (get_db (crear_venta now venta) d)"
| "handle (Crear_cuenta_pendiente now cuenta) d =
     snd (get_db (crear_cuenta_pendiente now cuenta) d)"
| "handle (Agregar_productos cuenta_id req) d =
     snd (get_db (agregar_productos_cuenta_pendiente cuenta_id req) d)"
| "handle (Pagar_cuenta_pendiente now cuenta_id) d =
     snd (get_db (pagar_cuenta_pendiente now cuenta_id) d)"

fun handle_all :: "request list \<Rightarrow> database \<Rightarrow> database" where
  "handle_all [] d = d"
| "handle_all (r # rs) d = handle_all rs (handle r d)"

definition empty_database :: database where
  "empty_database = \<lparr>productos = [], ventas = [], cuentas_pendientes = []\<rparr>"

section \<open>The line-item loop on the products alone\<close>

text \<open>
  The loops of \<open>crear_venta\<close>, \<open>crear_cuenta_pendiente\<close> and
  \<open>agregar_productos_cuenta_pendiente\<close> have the same body: look the product up, raise
  when it is missing or its stock is short, take the quantity off its stock, keep the
  product's key, the quantity and the product's price. \<open>resolver\<close> is that loop on the
  products table alone, for a request given as pairs of product key and quantity; each
  of the three loops is shown below to compute it. \<open>importe\<close> is the sum of the
  subtotals of the lines, \<open>cantidad_pedida\<close> the quantity a list of pairs asks of one
  product.
\<close>

fun resolver ::
  "(int \<times> int) list \<Rightarrow> ProductoDB list \<Rightarrow> (error + (int \<times> int \<times> real) list) \<times> ProductoDB list" where
  "resolver [] ps = (Inr [], ps)"
| "resolver ((producto_id, n) # items) ps =
     (case find (\<lambda>p. p_id p = producto_id) ps of
        None \<Rightarrow> (Inl (HTTPException 404 (Producto_con_id_no_encontrado producto_id)), ps)
      | Some producto \<Rightarrow>
          if p_cantidad producto < n
          then (Inl (HTTPException 400 (Stock_insuficiente_para (p_nombre producto))), ps)
          else (case resolver items
                       (map (\<lambda>p. if p_id p = p_id producto
                                 then p\<lparr>p_cantidad := p_cantidad producto - n\<rparr> else p) ps) of
                  (Inl e, ps') \<Rightarrow> (Inl e, ps')
                | (Inr lineas, ps') \<Rightarrow>
                    (Inr ((p_id producto, n, p_precio producto) # lineas), ps')))"

definition with_productos :: "session \<Rightarrow> ProductoDB list \<Rightarrow> session" where
  "with_productos db ps = db\<lparr>working := (working db)\<lparr>productos := ps\<rparr>\<rparr>"

definition importe :: "(int \<times> int \<times> real) list \<Rightarrow> real" where
  "importe lineas = (\<Sum>(producto_id, n, precio) \<leftarrow> lineas. precio * of_int n)"

definition cantidad_pedida :: "int \<Rightarrow> (int \<times> int) list \<Rightarrow> int" where
  "cantidad_pedida producto_id items = sum_list (map snd (filter (\<lambda>i. fst i = producto_id) items))"

text \<open>
  The requests as pairs, the lines as detail rows, and the session the loop of
  \<open>agregar_productos_cuenta_pendiente\<close> leaves when it ends: the products as the loop
  left them and the new detail rows under the account.
\<close>

definition pares_venta :: "DetalleVentaCreate list \<Rightarrow> (int \<times> int) list" where
  "pares_venta items = map (\<lambda>i. (dvc_producto_id i, dvc_cantidad i)) items"

definition pares_cuenta :: "DetalleCuentaPendienteCreate list \<Rightarrow> (int \<times> int) list" where
  "pares_cuenta items = map (\<lambda>i. (dcc_producto_id i, dcc_cantidad i)) items"

definition lineas_venta :: "(int \<times> int \<times> real) list \<Rightarrow> DetalleVentaDB list" where
  "lineas_venta lineas =
     map (\<lambda>(producto_id, n, precio).
            \<lparr>dv_producto_id = producto_id, dv_cantidad = n, dv_precio_unitario = precio\<rparr>) lineas"

definition lineas_cuenta :: "(int \<times> int \<times> real) list \<Rightarrow> DetalleCuentaPendienteDB list" where
  "lineas_cuenta lineas =
     map (\<lambda>(producto_id, n, precio).
            \<lparr>dc_producto_id = producto_id, dc_cantidad = n, dc_precio_unitario = precio\<rparr>) lineas"

definition with_detalles ::
  "session \<Rightarrow> int \<Rightarrow> DetalleCuentaPendienteDB list \<Rightarrow> ProductoDB list \<Rightarrow> session" where
  "with_detalles db cuenta_id ds ps =
     db\<lparr>working := (working db)\<lparr>productos := ps, cuentas_pendientes :=
        map (\<lambda>c. if c_id c = cuenta_id then c\<lparr>c_detalles := c_detalles c @ ds\<rparr> else c)
          (cuentas_pendientes (working db))\<rparr>\<rparr>"

section \<open>Predicates of the properties\<close>

text \<open>
  An account that has been settled: there is a row of that key, and its \<open>estado\<close> is
  \<open>"pagada"\<close>.
\<close>

definition cuenta_pagada :: "database \<Rightarrow> int \<Rightarrow> bool" where
  "cuenta_pagada d cuenta_id \<longleftrightarrow>
     list_ex (\<lambda>c. c_id c = cuenta_id) (cuentas_pendientes d) \<and>
     list_all (\<lambda>c. c_id c = cuenta_id \<longrightarrow> c_estado c = ''pagada'') (cuentas_pendientes d)"

text \<open>
  The invariant of the products table, and the requests that keep it: a product
  create or update that supplies a non-negative quantity, and every other request.
\<close>

definition stock_no_negativo :: "database \<Rightarrow> bool" where
  "stock_no_negativo d = list_all (\<lambda>p. 0 \<le> p_cantidad p) (productos d)"

fun cantidad_valida :: "request \<Rightarrow> bool" where
  "cantidad_valida (Crear_producto producto) = (0 \<le> pc_cantidad producto)"
| "cantidad_valida (Editar_producto producto_id producto) = (0 \<le> pc_cantidad producto)"
| "cantidad_valida _ = True"


text \<open>
  A detail row captures a line item: it has the item's product key and quantity, and
  its unit price is the price of that product in the products table \<open>ps\<close>.
\<close>

definition captura_venta :: "ProductoDB list \<Rightarrow> DetalleVentaCreate \<Rightarrow> DetalleVentaDB \<Rightarrow> bool" where
  "captura_venta ps item det \<longleftrightarrow>
     dv_producto_id det = dvc_producto_id item \<and> dv_cantidad det = dvc_cantidad item \<and>
     (case find (\<lambda>p. p_id p = dvc_producto_id item) ps of
        None \<Rightarrow> False
      | Some p \<Rightarrow> dv_precio_unitario det = p_precio p)"

definition captura_cuenta ::
  "ProductoDB list \<Rightarrow> DetalleCuentaPendienteCreate \<Rightarrow> DetalleCuentaPendienteDB \<Rightarrow> bool" where
  "captura_cuenta ps item det \<longleftrightarrow>
     dc_producto_id det = dcc_producto_id item \<and> dc_cantidad det = dcc_cantidad item \<and>
     (case find (\<lambda>p. p_id p = dcc_producto_id item) ps of
        None \<Rightarrow> False
      | Some p \<Rightarrow> dc_precio_unitario det = p_precio p)"



section \<open>Example requests and databases\<close>

text \<open>
  \<open>ejemplo_pan\<close> is the database after the product \<open>pan\<close> is created;
  \<open>ejemplo_vendido\<close> the database after three units of it are sold from there;
  \<open>ejemplo_pendiente\<close> the database after an account is opened for two units of it
  instead, and \<open>ejemplo_pagada\<close> the database after that account is settled. The
  lemmas \<open>ejemplo_pan_alcanzable\<close>, \<open>crear_venta_tres\<close>,
  \<open>ejemplo_pendiente_alcanzable\<close> and \<open>ejemplo_pagada_alcanzable\<close> below show that
  the endpoints produce them.
\<close>

definition pan :: ProductoCreate where
  "pan = \<lparr>pc_nombre = ''pan'', pc_codigo_barras = ''750'', pc_precio = 10, pc_cantidad = 5\<rparr>"

definition cuenta_ana :: CuentaPendienteCreate where
  "cuenta_ana = \<lparr>cc_nombre_cliente = ''Ana'',
                  cc_detalles = [\<lparr>dcc_producto_id = 1, dcc_cantidad = 2\<rparr>]\<rparr>"

definition venta_tres :: VentaCreate where
  "venta_tres = \<lparr>vc_detalles = [\<lparr>dvc_producto_id = 1, dvc_cantidad = 3\<rparr>]\<rparr>"



definition ejemplo_pan :: database where
  "ejemplo_pan =
     \<lparr>productos = [\<lparr>p_id = 1, p_nombre = ''pan'', p_codigo_barras = ''750'', p_precio = 10,
                     p_cantidad = 5\<rparr>],
      ventas = [], cuentas_pendientes = []\<rparr>"

definition ejemplo_vendido :: database where
  "ejemplo_vendido =
     \<lparr>productos = [\<lparr>p_id = 1, p_nombre = ''pan'', p_codigo_barras = ''750'', p_precio = 10,
                     p_cantidad = 2\<rparr>],
      ventas = [\<lparr>v_id = 1, v_fecha = 7, v_total = 30,
                  v_detalles = [\<lparr>dv_producto_id = 1, dv_cantidad = 3, dv_precio_unitario = 10\<rparr>]\<rparr>],
      cuentas_pendientes = []\<rparr>"

definition ejemplo_pendiente :: database where
  "ejemplo_pendiente =
     \<lparr>productos = [\<lparr>p_id = 1, p_nombre = ''pan'', p_codigo_barras = ''750'', p_precio = 10,
                     p_cantidad = 3\<rparr>],
      ventas = [],
      cuentas_pendientes =
        [\<lparr>c_id = 1, c_nombre_cliente = ''Ana'', c_fecha_creacion = 3, c_estado = ''pendiente'',
          c_detalles = [\<lparr>dc_producto_id = 1, dc_cantidad = 2, dc_precio_unitario = 10\<rparr>],
          c_total = 20\<rparr>]\<rparr>"

definition ejemplo_pagada :: database where
  "ejemplo_pagada =
     \<lparr>productos = [\<lparr>p_id = 1, p_nombre = ''pan'', p_codigo_barras = ''750'', p_precio = 10,
                     p_cantidad = 3\<rparr>],
      ventas = [\<lparr>v_id = 1, v_fecha = 5, v_total = 20,
                  v_detalles = [\<lparr>dv_producto_id = 1, dv_cantidad = 2, dv_precio_unitario = 10\<rparr>]\<rparr>],
      cuentas_pendientes =
        [\<lparr>c_id = 1, c_nombre_cliente = ''Ana'', c_fecha_creacion = 3, c_estado = ''pagada'',
          c_detalles = [\<lparr>dc_producto_id = 1, dc_cantidad = 2, dc_precio_unitario = 10\<rparr>],
          c_total = 20\<rparr>]\<rparr>"

section \<open>Properties\<close>

subsection \<open>The loop on the products alone\<close>

lemma find_id_Some: "find (\<lambda>p. p_id p = i) ps = Some p \<Longrightarrow> p_id p = i"
  by (induction ps) (auto split: if_splits)

lemma crear_venta_items_resolver:
  "crear_venta_items items t acc db =
     (case resolver (pares_venta items) (productos (working db)) of
        (Inl e, ps') \<Rightarrow> (Inl e, with_productos db ps')
      | (Inr lineas, ps') \<Rightarrow>
          (Inr (t + importe lineas, acc @ lineas_venta lineas), with_productos db ps'))"
proof (induction items arbitrary: t acc db)
  case Nil
  show ?case by (simp add: with_productos_def importe_def pares_venta_def lineas_venta_def)
next
  case (Cons item items)
  show ?case
  proof (cases "query_producto db (dvc_producto_id item)")
    case None
    then show ?thesis by (simp add: query_producto_def with_productos_def pares_venta_def)
  next
    case (Some producto)
    then have f: "find (\<lambda>p. p_id p = dvc_producto_id item) (productos (working db)) = Some producto"
      by (simp add: query_producto_def)
    show ?thesis
    proof (cases "p_cantidad producto < dvc_cantidad item")
      case True
      with Some f show ?thesis by (simp add: with_productos_def pares_venta_def)
    next
      case False
      with Some f show ?thesis
        by (simp add: Cons.IH set_cantidad_def with_productos_def importe_def pares_venta_def
              lineas_venta_def split: prod.splits sum.splits)
    qed
  qed
qed


lemma find_descontar:
  "find (\<lambda>p. p_id p = j) (map (\<lambda>p. if p_id p = i then p\<lparr>p_cantidad := n\<rparr> else p) ps) =
     map_option (\<lambda>p. if p_id p = i then p\<lparr>p_cantidad := n\<rparr> else p) (find (\<lambda>p. p_id p = j) ps)"
  by (induction ps) auto

lemma cantidad_pedida_Nil [simp]: "cantidad_pedida j [] = 0"
  by (simp add: cantidad_pedida_def)

lemma cantidad_pedida_Cons [simp]:
  "cantidad_pedida j ((i, n) # items) = (if i = j then n else 0) + cantidad_pedida j items"
  by (simp add: cantidad_pedida_def)

lemma cantidad_pedida_append [simp]:
  "cantidad_pedida j (xs @ ys) = cantidad_pedida j xs + cantidad_pedida j ys"
  by (simp add: cantidad_pedida_def)

lemma resolver_stock:
  "resolver items ps = (Inr lineas, ps') \<Longrightarrow>
   find (\<lambda>p. p_id p = j) ps' =
     map_option (\<lambda>p. p\<lparr>p_cantidad := p_cantidad p - cantidad_pedida j items\<rparr>)
       (find (\<lambda>p. p_id p = j) ps)"
proof (induction items arbitrary: ps lineas)
  case Nil
  then show ?case by (cases "find (\<lambda>p. p_id p = j) ps") auto
next
  case (Cons item items)
  obtain i n where item: "item = (i, n)" by (cases item)
  from Cons.prems item obtain p0 where p0: "find (\<lambda>p. p_id p = i) ps = Some p0"
    by (cases "find (\<lambda>p. p_id p = i) ps") auto
  have id0: "p_id p0 = i" using p0 by (rule find_id_Some)
  let ?ps1 = "map (\<lambda>p. if p_id p = i then p\<lparr>p_cantidad := p_cantidad p0 - n\<rparr> else p) ps"
  from Cons.prems item p0 id0 obtain l1 where r1: "resolver items ?ps1 = (Inr l1, ps')"
    by (auto split: if_splits prod.splits sum.splits)
  have "find (\<lambda>p. p_id p = j) ps' =
     map_option (\<lambda>p. p\<lparr>p_cantidad := p_cantidad p - cantidad_pedida j items\<rparr>)
       (find (\<lambda>p. p_id p = j) ?ps1)"
    by (rule Cons.IH [OF r1])
  then show ?case
  proof (cases "find (\<lambda>p. p_id p = j) ps")
    case None
    then show ?thesis using \<open>find _ ps' = _\<close> by (simp add: find_descontar)
  next
    case (Some p)
    have idp: "p_id p = j" using Some by (rule find_id_Some)
    show ?thesis
    proof (cases "i = j")
      case True
      with Some p0 have "p = p0" by simp
      with True Some idp id0 item \<open>find _ ps' = _\<close> show ?thesis
        by (simp add: find_descontar algebra_simps)
    next
      case False
      with Some idp item \<open>find _ ps' = _\<close> show ?thesis
        by (simp add: find_descontar)
    qed
  qed
qed

lemma resolver_nonneg:
  "list_all (\<lambda>p. 0 \<le> p_cantidad p) ps \<Longrightarrow>
   list_all (\<lambda>p. 0 \<le> p_cantidad p) (snd (resolver items ps))"
proof (induction items arbitrary: ps)
  case Nil
  then show ?case by simp
next
  case (Cons item items)
  obtain i n where item: "item = (i, n)" by (cases item)
  show ?case
  proof (cases "find (\<lambda>p. p_id p = i) ps")
    case None
    with item Cons.prems show ?thesis by simp
  next
    case (Some p0)
    show ?thesis
    proof (cases "p_cantidad p0 < n")
      case True
      with Some item Cons.prems show ?thesis by simp
    next
      case False
      let ?ps1 = "map (\<lambda>p. if p_id p = p_id p0 then p\<lparr>p_cantidad := p_cantidad p0 - n\<rparr> else p) ps"
      from False Cons.prems have "list_all (\<lambda>p. 0 \<le> p_cantidad p) ?ps1"
        by (auto simp: list_all_iff)
      then have "list_all (\<lambda>p. 0 \<le> p_cantidad p) (snd (resolver items ?ps1))"
        by (rule Cons.IH)
      with False Some item show ?thesis
        by (auto split: prod.splits sum.splits)
    qed
  qed
qed


lemma resolver_precio:
  "resolver items ps = (Inr lineas, ps') \<Longrightarrow>
   list_all2 (\<lambda>(i, n) (i', n', precio). i' = i \<and> n' = n \<and>
        (\<exists>p. find (\<lambda>p. p_id p = i) ps = Some p \<and> precio = p_precio p)) items lineas"
proof (induction items arbitrary: ps lineas)
  case Nil
  then show ?case by simp
next
  case (Cons item items)
  obtain i n where item: "item = (i, n)" by (cases item)
  from Cons.prems item obtain p0 where p0: "find (\<lambda>p. p_id p = i) ps = Some p0"
    by (cases "find (\<lambda>p. p_id p = i) ps") auto
  have id0: "p_id p0 = i" using p0 by (rule find_id_Some)
  let ?ps1 = "map (\<lambda>p. if p_id p = i then p\<lparr>p_cantidad := p_cantidad p0 - n\<rparr> else p) ps"
  from Cons.prems item p0 id0 obtain l1 where r1: "resolver items ?ps1 = (Inr l1, ps')"
    and l: "lineas = (i, n, p_precio p0) # l1"
    by (auto split: if_splits prod.splits sum.splits)
  have "list_all2 (\<lambda>(i, n) (i', n', precio). i' = i \<and> n' = n \<and>
        (\<exists>p. find (\<lambda>p. p_id p = i) ?ps1 = Some p \<and> precio = p_precio p)) items l1"
    by (rule Cons.IH [OF r1])
  then have "list_all2 (\<lambda>(i, n) (i', n', precio). i' = i \<and> n' = n \<and>
        (\<exists>p. find (\<lambda>p. p_id p = i) ps = Some p \<and> precio = p_precio p)) items l1"
    by (rule list_all2_mono) (auto simp: find_descontar)
  with item l p0 show ?case by simp
qed





lemma resolver_encontrados:
  assumes "resolver items ps = (Inr lineas, ps')"
  shows "list_all (\<lambda>(i, n, precio). find (\<lambda>p. p_id p = i) ps' \<noteq> None) lineas"
proof -
  have "list_all2 (\<lambda>(i, n) (i', n', precio). i' = i \<and> n' = n \<and>
        (\<exists>p. find (\<lambda>p. p_id p = i) ps = Some p \<and> precio = p_precio p)) items lineas"
    using assms by (rule resolver_precio)
  then have "list_all2 (\<lambda>(i, n) (i', n', precio). find (\<lambda>p. p_id p = i') ps' \<noteq> None) items lineas"
    by (rule list_all2_mono) (auto simp: resolver_stock [OF assms])
  then show ?thesis
    by (induction items lineas rule: list_all2_induct) auto
qed

subsection \<open>The three loops compute \<open>resolver\<close>; sales and new accounts\<close>

lemma crear_cuenta_pendiente_items_resolver:
  "crear_cuenta_pendiente_items items t acc db =
     (case resolver (pares_cuenta items) (productos (working db)) of
        (Inl e, ps') \<Rightarrow> (Inl e, with_productos db ps')
      | (Inr lineas, ps') \<Rightarrow>
          (Inr (t + importe lineas, acc @ lineas_cuenta lineas), with_productos db ps'))"
proof (induction items arbitrary: t acc db)
  case Nil
  show ?case by (simp add: with_productos_def importe_def pares_cuenta_def lineas_cuenta_def)
next
  case (Cons item items)
  show ?case
  proof (cases "query_producto db (dcc_producto_id item)")
    case None
    then show ?thesis by (simp add: query_producto_def with_productos_def pares_cuenta_def)
  next
    case (Some producto)
    then have f: "find (\<lambda>p. p_id p = dcc_producto_id item) (productos (working db)) = Some producto"
      by (simp add: query_producto_def)
    show ?thesis
    proof (cases "p_cantidad producto < dcc_cantidad item")
      case True
      with Some f show ?thesis by (simp add: with_productos_def pares_cuenta_def)
    next
      case False
      with Some f show ?thesis
        by (simp add: Cons.IH set_cantidad_def with_productos_def importe_def pares_cuenta_def
              lineas_cuenta_def split: prod.splits sum.splits)
    qed
  qed
qed

lemma agregar_productos_items_committed:
  "committed (snd (agregar_productos_items items cuenta t db)) = committed db"
proof (induction items arbitrary: t db)
  case Nil
  show ?case by simp
next
  case (Cons item items)
  show ?case
    by (simp add: Cons.IH set_cantidad_def add_detalle_def split: option.splits)
qed

lemma with_detalles_Nil: "with_detalles db i [] (productos (working db)) = db"
  by (simp add: with_detalles_def map_idI)

lemma agregar_productos_items_resolver:
  "resolver (pares_cuenta items) (productos (working db)) = (Inr lineas, ps') \<Longrightarrow>
   agregar_productos_items items cuenta t db =
     (Inr (t + importe lineas), with_detalles db (c_id cuenta) (lineas_cuenta lineas) ps')"
proof (induction items arbitrary: t db lineas)
  case Nil
  then have "lineas = []" and "ps' = productos (working db)"
    by (auto simp: pares_cuenta_def)
  then show ?case
    by (simp add: importe_def lineas_cuenta_def with_detalles_Nil)
next
  case (Cons item items)
  from Cons.prems obtain p0 where
    p0: "find (\<lambda>p. p_id p = dcc_producto_id item) (productos (working db)) = Some p0"
    by (cases "find (\<lambda>p. p_id p = dcc_producto_id item) (productos (working db))")
       (auto simp: pares_cuenta_def)
  have id0: "p_id p0 = dcc_producto_id item" using p0 by (rule find_id_Some)
  let ?db1 = "add_detalle (c_id cuenta)
                    \<lparr>dc_producto_id = p_id p0, dc_cantidad = dcc_cantidad item,
                      dc_precio_unitario = p_precio p0\<rparr>
                    (set_cantidad db (p_id p0) (p_cantidad p0 - dcc_cantidad item))"
  from Cons.prems p0 id0 obtain l1 where
    ge: "\<not> p_cantidad p0 < dcc_cantidad item" and
    r1: "resolver (pares_cuenta items) (productos (working ?db1)) = (Inr l1, ps')" and
    l: "lineas = (p_id p0, dcc_cantidad item, p_precio p0) # l1"
    by (auto simp: pares_cuenta_def set_cantidad_def add_detalle_def
             split: if_splits prod.splits sum.splits)
  have "agregar_productos_items items cuenta
          (t + p_precio p0 * of_int (dcc_cantidad item)) ?db1 =
     (Inr (t + p_precio p0 * of_int (dcc_cantidad item) + importe l1),
      with_detalles ?db1 (c_id cuenta) (lineas_cuenta l1) ps')"
    by (rule Cons.IH [OF r1])
  moreover have "with_detalles ?db1 (c_id cuenta) (lineas_cuenta l1) ps' =
      with_detalles db (c_id cuenta) (lineas_cuenta lineas) ps'"
    by (simp add: with_detalles_def l lineas_cuenta_def set_cantidad_def add_detalle_def
          comp_def cong: if_cong) 
  ultimately show ?case using p0 ge l
    by (simp add: query_producto_def importe_def)
qed

lemma agregar_productos_items_falla:
  "resolver (pares_cuenta items) (productos (working db)) = (Inl e, ps') \<Longrightarrow>
   fst (agregar_productos_items items cuenta t db) = Inl e"
proof (induction items arbitrary: t db)
  case Nil
  then show ?case by (simp add: pares_cuenta_def)
next
  case (Cons item items)
  show ?case
  proof (cases "find (\<lambda>p. p_id p = dcc_producto_id item) (productos (working db))")
    case None
    with Cons.prems show ?thesis by (simp add: pares_cuenta_def query_producto_def)
  next
    case (Some p0)
    have id0: "p_id p0 = dcc_producto_id item" using Some by (rule find_id_Some)
    show ?thesis
    proof (cases "p_cantidad p0 < dcc_cantidad item")
      case True
      with Some Cons.prems show ?thesis by (simp add: pares_cuenta_def query_producto_def)
    next
      case False
      let ?db1 = "add_detalle (c_id cuenta)
                    \<lparr>dc_producto_id = p_id p0, dc_cantidad = dcc_cantidad item,
                      dc_precio_unitario = p_precio p0\<rparr>
                    (set_cantidad db (p_id p0) (p_cantidad p0 - dcc_cantidad item))"
      from False Some id0 Cons.prems
      have "resolver (pares_cuenta items) (productos (working ?db1)) = (Inl e, ps')"
        by (auto simp: pares_cuenta_def set_cantidad_def add_detalle_def
                 split: prod.splits sum.splits)
      then have "fst (agregar_productos_items items cuenta
          (t + p_precio p0 * of_int (dcc_cantidad item)) ?db1) = Inl e"
        by (rule Cons.IH)
      with False Some show ?thesis by (simp add: query_producto_def)
    qed
  qed
qed


lemma respuesta_detalles_venta_ok:
  "list_all (\<lambda>d. find (\<lambda>p. p_id p = dv_producto_id d) (productos (working db)) \<noteq> None) ds \<Longrightarrow>
   \<exists>out. respuesta_detalles_venta db ds = Inr out"
  by (induction ds) (auto simp: query_producto_def)

lemma respuesta_detalles_cuenta_ok:
  "list_all (\<lambda>d. find (\<lambda>p. p_id p = dc_producto_id d) (productos (working db)) \<noteq> None) ds \<Longrightarrow>
   \<exists>out. respuesta_detalles_cuenta db ds = Inr out"
  by (induction ds) (auto simp: query_producto_def)

lemma lineas_venta_encontrados:
  "list_all (\<lambda>(i, n, precio). find (\<lambda>p. p_id p = i) ps \<noteq> None) lineas \<Longrightarrow>
   list_all (\<lambda>d. find (\<lambda>p. p_id p = dv_producto_id d) ps \<noteq> None) (lineas_venta lineas)"
  by (induction lineas) (auto simp: lineas_venta_def)

lemma lineas_cuenta_encontrados:
  "list_all (\<lambda>(i, n, precio). find (\<lambda>p. p_id p = i) ps \<noteq> None) lineas \<Longrightarrow>
   list_all (\<lambda>d. find (\<lambda>p. p_id p = dc_producto_id d) ps \<noteq> None) (lineas_cuenta lineas)"
  by (induction lineas) (auto simp: lineas_cuenta_def)

lemma crear_venta_falla:
  assumes "resolver (pares_venta (vc_detalles venta)) (productos d) = (Inl e, ps')"
  shows "get_db (crear_venta now venta) d = (Inl e, d)"
  using assms
  by (simp add: get_db_def crear_venta_def crear_venta_items_resolver SessionLocal_def
        with_productos_def close_def)

lemma crear_venta_ok:
  assumes r: "resolver (pares_venta (vc_detalles venta)) (productos d) = (Inr lineas, ps')"
  shows "\<exists>detalles. get_db (crear_venta now venta) d =
     (Inr \<lparr>rv_id = next_id (map v_id (ventas d)), rv_fecha = now,
           rv_total = importe lineas, rv_detalles = detalles\<rparr>,
      d\<lparr>productos := ps',
        ventas := ventas d @
          [\<lparr>v_id = next_id (map v_id (ventas d)), v_fecha = now,
            v_total = importe lineas, v_detalles = lineas_venta lineas\<rparr>]\<rparr>)"
proof -
  let ?v = "\<lparr>v_id = next_id (map v_id (ventas d)), v_fecha = now,
            v_total = importe lineas, v_detalles = lineas_venta lineas\<rparr>"
  let ?db2 = "commit (add_venta ?v (with_productos (SessionLocal d) ps'))"
  have ps: "productos (working ?db2) = ps'"
    by (simp add: commit_def add_venta_def with_productos_def)
  have "list_all (\<lambda>d. find (\<lambda>p. p_id p = dv_producto_id d) ps' \<noteq> None) (lineas_venta lineas)"
    using resolver_encontrados [OF r] by (rule lineas_venta_encontrados)
  with ps obtain out where out: "respuesta_detalles_venta ?db2 (lineas_venta lineas) = Inr out"
    using respuesta_detalles_venta_ok [of ?db2 "lineas_venta lineas"] by auto
  have "get_db (crear_venta now venta) d =
     (Inr \<lparr>rv_id = next_id (map v_id (ventas d)), rv_fecha = now,
           rv_total = importe lineas, rv_detalles = out\<rparr>,
      d\<lparr>productos := ps', ventas := ventas d @ [?v]\<rparr>)"
    using r out
    by (simp add: get_db_def crear_venta_def crear_venta_items_resolver SessionLocal_def
        with_productos_def close_def commit_def add_venta_def Let_def)
  then show ?thesis by blast
qed

lemma crear_cuenta_pendiente_falla:
  assumes "resolver (pares_cuenta (cc_detalles cuenta)) (productos d) = (Inl e, ps')"
  shows "get_db (crear_cuenta_pendiente now cuenta) d = (Inl e, d)"
  using assms
  by (simp add: get_db_def crear_cuenta_pendiente_def crear_cuenta_pendiente_items_resolver
        SessionLocal_def with_productos_def close_def)

lemma crear_cuenta_pendiente_ok:
  assumes r: "resolver (pares_cuenta (cc_detalles cuenta)) (productos d) = (Inr lineas, ps')"
  shows "\<exists>detalles. get_db (crear_cuenta_pendiente now cuenta) d =
     (Inr \<lparr>rc_id = next_id (map c_id (cuentas_pendientes d)),
           rc_nombre_cliente = cc_nombre_cliente cuenta, rc_fecha_creacion = now,
           rc_estado = ''pendiente'', rc_total = importe lineas, rc_detalles = detalles\<rparr>,
      d\<lparr>productos := ps',
        cuentas_pendientes := cuentas_pendientes d @
          [\<lparr>c_id = next_id (map c_id (cuentas_pendientes d)),
            c_nombre_cliente = cc_nombre_cliente cuenta, c_fecha_creacion = now,
            c_estado = ''pendiente'', c_detalles = lineas_cuenta lineas,
            c_total = importe lineas\<rparr>]\<rparr>)"
proof -
  let ?c = "\<lparr>c_id = next_id (map c_id (cuentas_pendientes d)),
            c_nombre_cliente = cc_nombre_cliente cuenta, c_fecha_creacion = now,
            c_estado = ''pendiente'', c_detalles = lineas_cuenta lineas,
            c_total = importe lineas\<rparr>"
  let ?db2 = "commit (add_cuenta ?c (with_productos (SessionLocal d) ps'))"
  have ps: "productos (working ?db2) = ps'"
    by (simp add: commit_def add_cuenta_def with_productos_def)
  have "list_all (\<lambda>d. find (\<lambda>p. p_id p = dc_producto_id d) ps' \<noteq> None) (lineas_cuenta lineas)"
    using resolver_encontrados [OF r] by (rule lineas_cuenta_encontrados)
  with ps obtain out where out: "respuesta_detalles_cuenta ?db2 (lineas_cuenta lineas) = Inr out"
    using respuesta_detalles_cuenta_ok [of ?db2 "lineas_cuenta lineas"] by auto
  have "get_db (crear_cuenta_pendiente now cuenta) d =
     (Inr \<lparr>rc_id = next_id (map c_id (cuentas_pendientes d)),
           rc_nombre_cliente = cc_nombre_cliente cuenta, rc_fecha_creacion = now,
           rc_estado = ''pendiente'', rc_total = importe lineas, rc_detalles = out\<rparr>,
      d\<lparr>productos := ps', cuentas_pendientes := cuentas_pendientes d @ [?c]\<rparr>)"
    using r out
    by (simp add: get_db_def crear_cuenta_pendiente_def crear_cuenta_pendiente_items_resolver
        SessionLocal_def with_productos_def close_def commit_def add_cuenta_def Let_def
        respuesta_cuenta_def)
  then show ?thesis by blast
qed

subsection \<open>A sale with no line items\<close>

text \<open>
  C8. A create-sale request with an empty list of line items succeeds: it records a
  sale with total 0 and no line items, and the products table is what it was.
\<close>

theorem crear_venta_empty:
  "get_db (crear_venta now \<lparr>vc_detalles = []\<rparr>) d =
     (Inr \<lparr>rv_id = next_id (map v_id (ventas d)), rv_fecha = now, rv_total = 0, rv_detalles = []\<rparr>,
      d\<lparr>ventas := ventas d @
           [\<lparr>v_id = next_id (map v_id (ventas d)), v_fecha = now, v_total = 0, v_detalles = []\<rparr>]\<rparr>)"
  by (simp add: get_db_def crear_venta_def SessionLocal_def commit_def add_venta_def close_def Let_def)

subsection \<open>Appending and settling\<close>

lemma agregar_sin_cuenta:
  assumes "find (\<lambda>c. c_id c = cuenta_id \<and> c_estado c = ''pendiente'') (cuentas_pendientes d) = None"
  shows "get_db (agregar_productos_cuenta_pendiente cuenta_id req) d =
     (Inl (HTTPException 404 Cuenta_pendiente_no_encontrada), d)"
  using assms
  by (simp add: get_db_def agregar_productos_cuenta_pendiente_def query_cuenta_pendiente_def
        SessionLocal_def close_def)

lemma agregar_falla:
  assumes c: "find (\<lambda>c. c_id c = cuenta_id \<and> c_estado c = ''pendiente'') (cuentas_pendientes d) = Some cuenta"
    and r: "resolver (pares_cuenta (ar_detalles req)) (productos d) = (Inl e, ps')"
  shows "get_db (agregar_productos_cuenta_pendiente cuenta_id req) d = (Inl e, d)"
proof -
  obtain x db1 where l: "agregar_productos_items (ar_detalles req) cuenta 0 (SessionLocal d) = (x, db1)"
    by (cases "agregar_productos_items (ar_detalles req) cuenta 0 (SessionLocal d)")
  have "fst (agregar_productos_items (ar_detalles req) cuenta 0 (SessionLocal d)) = Inl e"
    using r by (intro agregar_productos_items_falla [of _ _ _ ps']) (simp add: SessionLocal_def)
  with l have x: "x = Inl e" by simp
  have "committed (snd (agregar_productos_items (ar_detalles req) cuenta 0 (SessionLocal d))) =
      committed (SessionLocal d)"
    by (rule agregar_productos_items_committed)
  with l have "committed db1 = d" by (simp add: SessionLocal_def)
  with c l x show ?thesis
    by (simp add: get_db_def agregar_productos_cuenta_pendiente_def query_cuenta_pendiente_def
        SessionLocal_def close_def)
qed

lemma agregar_ok:
  assumes c: "find (\<lambda>c. c_id c = cuenta_id \<and> c_estado c = ''pendiente'') (cuentas_pendientes d) = Some cuenta"
    and r: "resolver (pares_cuenta (ar_detalles req)) (productos d) = (Inr lineas, ps')"
  shows "snd (get_db (agregar_productos_cuenta_pendiente cuenta_id req) d) =
     d\<lparr>productos := ps',
       cuentas_pendientes :=
         map (\<lambda>c. if c_id c = cuenta_id
                  then c\<lparr>c_detalles := c_detalles c @ lineas_cuenta lineas,
                         c_total := c_total cuenta + importe lineas\<rparr>
                  else c) (cuentas_pendientes d)\<rparr>"
proof -
  have idc: "c_id cuenta = cuenta_id"
    using c by (auto simp: find_Some_iff)
  have "agregar_productos_items (ar_detalles req) cuenta 0 (SessionLocal d) =
     (Inr (0 + importe lineas),
      with_detalles (SessionLocal d) (c_id cuenta) (lineas_cuenta lineas) ps')"
    using r by (intro agregar_productos_items_resolver) (simp add: SessionLocal_def)
  with c idc show ?thesis
    by (simp add: get_db_def agregar_productos_cuenta_pendiente_def query_cuenta_pendiente_def
        SessionLocal_def close_def with_detalles_def set_total_def commit_def Let_def comp_def
        cong: if_cong)
qed

lemma pagar_sin_cuenta:
  assumes "find (\<lambda>c. c_id c = cuenta_id \<and> c_estado c = ''pendiente'') (cuentas_pendientes d) = None"
  shows "get_db (pagar_cuenta_pendiente now cuenta_id) d =
     (Inl (HTTPException 404 Cuenta_pendiente_no_encontrada), d)"
  using assms
  by (simp add: get_db_def pagar_cuenta_pendiente_def query_cuenta_pendiente_def
        SessionLocal_def close_def)

lemma pagar_ok:
  assumes c: "find (\<lambda>c. c_id c = cuenta_id \<and> c_estado c = ''pendiente'') (cuentas_pendientes d) = Some cuenta"
  shows "snd (get_db (pagar_cuenta_pendiente now cuenta_id) d) =
     d\<lparr>ventas := ventas d @
          [\<lparr>v_id = next_id (map v_id (ventas d)), v_fecha = now, v_total = c_total cuenta,
            v_detalles = map (\<lambda>d. \<lparr>dv_producto_id = dc_producto_id d, dv_cantidad = dc_cantidad d,
                           dv_precio_unitario = dc_precio_unitario d\<rparr>) (c_detalles cuenta)\<rparr>],
       cuentas_pendientes :=
         map (\<lambda>c. if c_id c = cuenta_id then c\<lparr>c_estado := ''pagada''\<rparr> else c)
           (cuentas_pendientes d)\<rparr>"
proof -
  have idc: "c_id cuenta = cuenta_id"
    using c by (auto simp: find_Some_iff)
  with c show ?thesis
    by (simp add: get_db_def pagar_cuenta_pendiente_def query_cuenta_pendiente_def
        SessionLocal_def close_def set_estado_def add_venta_def commit_def Let_def)
qed


subsection \<open>The example databases\<close>

lemma ejemplo_pendiente_alcanzable:
  "handle_all [Crear_producto pan, Crear_cuenta_pendiente 3 cuenta_ana] empty_database =
     ejemplo_pendiente"
  by (simp add: pan_def cuenta_ana_def ejemplo_pendiente_def empty_database_def get_db_def
        crear_producto_def crear_cuenta_pendiente_def SessionLocal_def close_def commit_def
        add_producto_def add_cuenta_def set_cantidad_def query_producto_def next_id_def
        respuesta_cuenta_def Let_def)

lemma ejemplo_pagada_alcanzable:
  "handle (Pagar_cuenta_pendiente 5 1) ejemplo_pendiente = ejemplo_pagada"
  by (simp add: ejemplo_pendiente_def ejemplo_pagada_def get_db_def
        pagar_cuenta_pendiente_def query_cuenta_pendiente_def SessionLocal_def close_def
        commit_def add_venta_def set_estado_def next_id_def Let_def)

subsection \<open>Settling and the products table\<close>

lemma pagar_productos:
  "productos (snd (get_db (pagar_cuenta_pendiente now cuenta_id) d)) = productos d"
proof (cases "find (\<lambda>c. c_id c = cuenta_id \<and> c_estado c = ''pendiente'') (cuentas_pendientes d)")
  case None
  then show ?thesis by (simp add: pagar_sin_cuenta)
next
  case (Some cuenta)
  then show ?thesis by (simp add: pagar_ok)
qed

text \<open>
  C10. Settling an account leaves the products table as it was: no product's quantity,
  price, name or barcode changes, whether the settlement succeeds or not.
\<close>

theorem pagar_no_toca_productos:
  "productos (snd (get_db (pagar_cuenta_pendiente now cuenta_id) d)) = productos d"
  by (rule pagar_productos)

subsection \<open>Accounts already settled\<close>

lemma cuenta_pagada_find:
  "cuenta_pagada d cuenta_id \<Longrightarrow>
   find (\<lambda>c. c_id c = cuenta_id \<and> c_estado c = ''pendiente'') (cuentas_pendientes d) = None"
  by (auto simp: cuenta_pagada_def find_None_iff list_all_iff)

text \<open>
  C3, as amended. Settling an account that has already been settled fails, creates no
  second sale and leaves the database as it was; the error is the
  \<open>HTTPException(404, "Cuenta pendiente no encontrada")\<close> that a missing account key
  gets, since the only test is the query's filter on \<open>estado\<close>.
\<close>

theorem pagar_cuenta_pagada:
  assumes "cuenta_pagada d cuenta_id"
  shows "get_db (pagar_cuenta_pendiente now cuenta_id) d =
     (Inl (HTTPException 404 Cuenta_pendiente_no_encontrada), d)"
  using assms by (simp add: pagar_sin_cuenta cuenta_pagada_find)

theorem pagar_cuenta_pagada_witness:
  "cuenta_pagada ejemplo_pagada 1 \<and>
   get_db (pagar_cuenta_pendiente 9 1) ejemplo_pagada =
     (Inl (HTTPException 404 Cuenta_pendiente_no_encontrada), ejemplo_pagada)"
proof -
  have h: "cuenta_pagada ejemplo_pagada 1"
    by (simp add: cuenta_pagada_def ejemplo_pagada_def)
  show ?thesis using h pagar_cuenta_pagada [OF h, of 9] by simp
qed

text \<open>
  C3 as stated fails: settling the settled account 1 and settling the missing account 2
  raise the same error, with status 404.
\<close>

theorem pagar_cuenta_pagada_es_404:
  "fst (get_db (pagar_cuenta_pendiente 9 1) ejemplo_pagada) =
     Inl (HTTPException 404 Cuenta_pendiente_no_encontrada) \<and>
   fst (get_db (pagar_cuenta_pendiente 9 2) ejemplo_pagada) =
     Inl (HTTPException 404 Cuenta_pendiente_no_encontrada)"
  by (simp add: ejemplo_pagada_def get_db_def pagar_cuenta_pendiente_def
        query_cuenta_pendiente_def SessionLocal_def close_def)

text \<open>
  C4, as amended. Appending line items to an account that has already been settled
  fails and leaves the account, the products and the sales as they were; the error is
  the \<open>HTTPException(404, "Cuenta pendiente no encontrada")\<close> that a missing account
  key gets.
\<close>

theorem agregar_cuenta_pagada:
  assumes "cuenta_pagada d cuenta_id"
  shows "get_db (agregar_productos_cuenta_pendiente cuenta_id req) d =
     (Inl (HTTPException 404 Cuenta_pendiente_no_encontrada), d)"
  using assms by (simp add: agregar_sin_cuenta cuenta_pagada_find)

theorem agregar_cuenta_pagada_witness:
  "cuenta_pagada ejemplo_pagada 1 \<and>
   get_db (agregar_productos_cuenta_pendiente 1
       \<lparr>ar_detalles = [\<lparr>dcc_producto_id = 1, dcc_cantidad = 1\<rparr>]\<rparr>) ejemplo_pagada =
     (Inl (HTTPException 404 Cuenta_pendiente_no_encontrada), ejemplo_pagada)"
proof -
  have h: "cuenta_pagada ejemplo_pagada 1"
    by (simp add: cuenta_pagada_def ejemplo_pagada_def)
  show ?thesis using h agregar_cuenta_pagada [OF h] by simp
qed

text \<open>
  C4 as stated fails: appending to the settled account 1 and appending to the missing
  account 2 raise the same error, with status 404.
\<close>

theorem agregar_cuenta_pagada_es_404:
  "fst (get_db (agregar_productos_cuenta_pendiente 1
       \<lparr>ar_detalles = [\<lparr>dcc_producto_id = 1, dcc_cantidad = 1\<rparr>]\<rparr>) ejemplo_pagada) =
     Inl (HTTPException 404 Cuenta_pendiente_no_encontrada) \<and>
   fst (get_db (agregar_productos_cuenta_pendiente 2
       \<lparr>ar_detalles = [\<lparr>dcc_producto_id = 1, dcc_cantidad = 1\<rparr>]\<rparr>) ejemplo_pagada) =
     Inl (HTTPException 404 Cuenta_pendiente_no_encontrada)"
  by (simp add: ejemplo_pagada_def get_db_def agregar_productos_cuenta_pendiente_def
        query_cuenta_pendiente_def SessionLocal_def close_def)

lemma respuesta_cuentas_ids:
  "respuesta_cuentas db cs = Inr r \<Longrightarrow> map rc_id r = map c_id cs"
proof (induction cs arbitrary: r)
  case Nil
  then show ?case by simp
next
  case (Cons c cs)
  then show ?case
    by (auto simp: respuesta_cuenta_def split: sum.splits)
qed

subsection \<open>The effect of settling\<close>

lemma find_SomeD: "find P xs = Some x \<Longrightarrow> P x \<and> x \<in> set xs"
  by (induction xs) (auto split: if_splits)

lemma pagadas_todas:
  "list_all (\<lambda>c. c_id c = i \<longrightarrow> c_estado c = ''pagada'')
     (map (\<lambda>c. if c_id c = i then c\<lparr>c_estado := ''pagada''\<rparr> else c) cs)"
  by (induction cs) simp_all

lemma pagadas_no_listadas:
  "i \<notin> set (map c_id (filter (\<lambda>c. c_estado c = ''pendiente'')
     (map (\<lambda>c. if c_id c = i then c\<lparr>c_estado := ''pagada''\<rparr> else c) cs)))"
  by (induction cs) simp_all

lemma respuesta_cuenta_campos:
  "respuesta_cuenta db c = Inr r \<Longrightarrow> rc_id r = c_id c \<and> rc_estado r = c_estado c \<and> rc_total r = c_total c"
  by (auto simp: respuesta_cuenta_def split: sum.splits)

text \<open>
  C6. Settling an account that is pending sets its \<open>estado\<close> to \<open>"pagada"\<close> and, in
  the same commit, adds a sale whose total is the account's total and whose detail
  rows are the account's, with the same product keys, quantities and unit prices; the
  database after the request has both changes. Afterwards the account is settled, the
  listing of the pending accounts does not hold it, and the response, when there is
  one, shows the account as \<open>"pagada"\<close>.
\<close>

theorem pagar_cuenta_pendiente_efecto:
  assumes "find (\<lambda>c. c_id c = cuenta_id \<and> c_estado c = ''pendiente'') (cuentas_pendientes d) =
             Some cuenta"
  shows "snd (get_db (pagar_cuenta_pendiente now cuenta_id) d) =
           d\<lparr>ventas := ventas d @
                [\<lparr>v_id = next_id (map v_id (ventas d)), v_fecha = now, v_total = c_total cuenta,
                  v_detalles =
                    map (\<lambda>d. \<lparr>dv_producto_id = dc_producto_id d, dv_cantidad = dc_cantidad d,
                               dv_precio_unitario = dc_precio_unitario d\<rparr>) (c_detalles cuenta)\<rparr>],
             cuentas_pendientes :=
               map (\<lambda>c. if c_id c = cuenta_id then c\<lparr>c_estado := ''pagada''\<rparr> else c)
                 (cuentas_pendientes d)\<rparr> \<and>
         cuenta_pagada (snd (get_db (pagar_cuenta_pendiente now cuenta_id) d)) cuenta_id \<and>
         (\<forall>resultado.
            fst (get_db listar_cuentas_pendientes
                   (snd (get_db (pagar_cuenta_pendiente now cuenta_id) d))) = Inr resultado \<longrightarrow>
            cuenta_id \<notin> set (map rc_id resultado)) \<and>
         (\<forall>r. fst (get_db (pagar_cuenta_pendiente now cuenta_id) d) = Inr r \<longrightarrow>
            rc_id r = cuenta_id \<and> rc_estado r = ''pagada'')"
proof -
  let ?d' = "snd (get_db (pagar_cuenta_pendiente now cuenta_id) d)"
  let ?cs' = "map (\<lambda>c. if c_id c = cuenta_id then c\<lparr>c_estado := ''pagada''\<rparr> else c)
                 (cuentas_pendientes d)"
  have idc: "c_id cuenta = cuenta_id" and mem: "cuenta \<in> set (cuentas_pendientes d)"
    using assms by (auto dest: find_SomeD)
  have eff: "?d' =
           d\<lparr>ventas := ventas d @
                [\<lparr>v_id = next_id (map v_id (ventas d)), v_fecha = now, v_total = c_total cuenta,
                  v_detalles =
                    map (\<lambda>d. \<lparr>dv_producto_id = dc_producto_id d, dv_cantidad = dc_cantidad d,
                               dv_precio_unitario = dc_precio_unitario d\<rparr>) (c_detalles cuenta)\<rparr>],
             cuentas_pendientes := ?cs'\<rparr>"
    using assms by (rule pagar_ok)
  then have cs: "cuentas_pendientes ?d' = ?cs'" by simp
  have "(if c_id cuenta = cuenta_id then cuenta\<lparr>c_estado := ''pagada''\<rparr> else cuenta) \<in> set ?cs'"
    using mem unfolding set_map by (rule imageI)
  then have "cuenta\<lparr>c_estado := ''pagada''\<rparr> \<in> set ?cs'" using idc by simp
  then have "list_ex (\<lambda>c. c_id c = cuenta_id) ?cs'"
    unfolding list_ex_iff using idc by (intro bexI [of _ "cuenta\<lparr>c_estado := ''pagada''\<rparr>"]) simp_all
  moreover have "list_all (\<lambda>c. c_id c = cuenta_id \<longrightarrow> c_estado c = ''pagada'') ?cs'"
    by (rule pagadas_todas)
  ultimately have pg: "cuenta_pagada ?d' cuenta_id"
    unfolding cuenta_pagada_def cs by simp
  have lst: "\<forall>resultado. fst (get_db listar_cuentas_pendientes ?d') = Inr resultado \<longrightarrow>
            cuenta_id \<notin> set (map rc_id resultado)"
  proof (intro allI impI)
    fix resultado
    assume "fst (get_db listar_cuentas_pendientes ?d') = Inr resultado"
    then have "respuesta_cuentas (SessionLocal ?d')
                 (filter (\<lambda>c. c_estado c = ''pendiente'') (cuentas_pendientes ?d')) = Inr resultado"
      by (simp add: get_db_def listar_cuentas_pendientes_def SessionLocal_def Let_def)
    then have "map rc_id resultado =
        map c_id (filter (\<lambda>c. c_estado c = ''pendiente'') ?cs')"
      unfolding cs by (rule respuesta_cuentas_ids)
    then show "cuenta_id \<notin> set (map rc_id resultado)"
      by (simp only: pagadas_no_listadas not_False_eq_True)
  qed
  have rsp: "\<forall>r. fst (get_db (pagar_cuenta_pendiente now cuenta_id) d) = Inr r \<longrightarrow>
            rc_id r = cuenta_id \<and> rc_estado r = ''pagada''"
  proof (intro allI impI)
    fix r
    assume a: "fst (get_db (pagar_cuenta_pendiente now cuenta_id) d) = Inr r"
    let ?db2 = "commit (set_estado (add_venta
        \<lparr>v_id = next_id (map v_id (ventas d)), v_fecha = now, v_total = c_total cuenta,
          v_detalles =
                    map (\<lambda>d. \<lparr>dv_producto_id = dc_producto_id d, dv_cantidad = dc_cantidad d,
                               dv_precio_unitario = dc_precio_unitario d\<rparr>) (c_detalles cuenta)\<rparr>
        (SessionLocal d)) (c_id cuenta) ''pagada'')"
    from a assms have r: "respuesta_cuenta ?db2 (refresh_cuenta ?db2 cuenta) = Inr r"
      by (simp add: get_db_def pagar_cuenta_pendiente_def query_cuenta_pendiente_def
            SessionLocal_def Let_def split: prod.splits)
    have "find (\<lambda>c. c_id c = cuenta_id) ?cs' \<noteq> None"
      using mem idc by (auto simp: find_None_iff)
    then obtain c' where c': "find (\<lambda>c. c_id c = cuenta_id) ?cs' = Some c'" by auto
    then have "c_id c' = cuenta_id" and "c' \<in> set ?cs'"
      by (auto dest: find_SomeD)
    then have "c_estado c' = ''pagada''"
      using pagadas_todas [of cuenta_id "cuentas_pendientes d"] by (simp add: list_all_iff)
    moreover have "refresh_cuenta ?db2 cuenta = c'"
      using c' idc
      by (simp add: refresh_cuenta_def commit_def set_estado_def add_venta_def SessionLocal_def)
    ultimately show "rc_id r = cuenta_id \<and> rc_estado r = ''pagada''"
      using respuesta_cuenta_campos [OF r] \<open>c_id c' = cuenta_id\<close> by simp
  qed
  from eff pg lst rsp show ?thesis by blast
qed


theorem pagar_cuenta_pendiente_efecto_witness:
  "find (\<lambda>c. c_id c = 1 \<and> c_estado c = ''pendiente'') (cuentas_pendientes ejemplo_pendiente) =
     Some \<lparr>c_id = 1, c_nombre_cliente = ''Ana'', c_fecha_creacion = 3,
            c_estado = ''pendiente'',
            c_detalles = [\<lparr>dc_producto_id = 1, dc_cantidad = 2, dc_precio_unitario = 10\<rparr>],
            c_total = 20\<rparr> \<and>
   snd (get_db (pagar_cuenta_pendiente 5 1) ejemplo_pendiente) = ejemplo_pagada \<and>
   cuenta_pagada (snd (get_db (pagar_cuenta_pendiente 5 1) ejemplo_pendiente)) 1 \<and>
   fst (get_db listar_cuentas_pendientes ejemplo_pagada) = Inr []"
proof -
  have h: "find (\<lambda>c. c_id c = 1 \<and> c_estado c = ''pendiente'')
             (cuentas_pendientes ejemplo_pendiente) =
     Some \<lparr>c_id = 1, c_nombre_cliente = ''Ana'', c_fecha_creacion = 3,
            c_estado = ''pendiente'',
            c_detalles = [\<lparr>dc_producto_id = 1, dc_cantidad = 2, dc_precio_unitario = 10\<rparr>],
            c_total = 20\<rparr>"
    by (simp add: ejemplo_pendiente_def)
  have l: "fst (get_db listar_cuentas_pendientes ejemplo_pagada) = Inr []"
    by (simp add: ejemplo_pagada_def get_db_def listar_cuentas_pendientes_def SessionLocal_def)
  note t = pagar_cuenta_pendiente_efecto [OF h, of 5]
  have "snd (get_db (pagar_cuenta_pendiente 5 1) ejemplo_pendiente) =
      ejemplo_pendiente\<lparr>ventas := ventas ejemplo_pendiente @
                [\<lparr>v_id = next_id (map v_id (ventas ejemplo_pendiente)), v_fecha = 5,
                  v_total = c_total \<lparr>c_id = 1, c_nombre_cliente = ''Ana'', c_fecha_creacion = 3,
            c_estado = ''pendiente'',
            c_detalles = [\<lparr>dc_producto_id = 1, dc_cantidad = 2, dc_precio_unitario = 10\<rparr>],
            c_total = 20\<rparr>,
                  v_detalles =
                    map (\<lambda>d. \<lparr>dv_producto_id = dc_producto_id d, dv_cantidad = dc_cantidad d,
                               dv_precio_unitario = dc_precio_unitario d\<rparr>)
                      (c_detalles \<lparr>c_id = 1, c_nombre_cliente = ''Ana'', c_fecha_creacion = 3,
            c_estado = ''pendiente'',
            c_detalles = [\<lparr>dc_producto_id = 1, dc_cantidad = 2, dc_precio_unitario = 10\<rparr>],
            c_total = 20\<rparr>)\<rparr>],
             cuentas_pendientes :=
               map (\<lambda>c. if c_id c = 1 then c\<lparr>c_estado := ''pagada''\<rparr> else c)
                 (cuentas_pendientes ejemplo_pendiente)\<rparr>"
    by (rule t [THEN conjunct1])
  also have "\<dots> = ejemplo_pagada"
    by (simp add: ejemplo_pendiente_def ejemplo_pagada_def next_id_def)
  finally have s: "snd (get_db (pagar_cuenta_pendiente 5 1) ejemplo_pendiente) = ejemplo_pagada" .
  have p: "cuenta_pagada (snd (get_db (pagar_cuenta_pendiente 5 1) ejemplo_pendiente)) 1"
    by (rule t [THEN conjunct2, THEN conjunct1])
  from h s p l show ?thesis by simp
qed

subsection \<open>Quantities on hand\<close>

lemma crear_producto_efecto:
  "snd (get_db (crear_producto producto) d) =
     (if list_ex (\<lambda>p. p_codigo_barras p = pc_codigo_barras producto) (productos d) then d
      else d\<lparr>productos := productos d @
             [\<lparr>p_id = next_id (map p_id (productos d)), p_nombre = pc_nombre producto,
               p_codigo_barras = pc_codigo_barras producto, p_precio = pc_precio producto,
               p_cantidad = pc_cantidad producto\<rparr>]\<rparr>)"
  by (simp add: get_db_def crear_producto_def SessionLocal_def close_def commit_def
        rollback_def add_producto_def Let_def)

lemma editar_producto_efecto:
  "snd (get_db (editar_producto producto_id producto) d) = d \<or>
   snd (get_db (editar_producto producto_id producto) d) =
     d\<lparr>productos :=
         map (\<lambda>p. if p_id p = producto_id
                  then p\<lparr>p_nombre := pc_nombre producto,
                         p_codigo_barras := pc_codigo_barras producto,
                         p_precio := pc_precio producto, p_cantidad := pc_cantidad producto\<rparr>
                  else p) (productos d)\<rparr>"
proof (cases "find (\<lambda>p. p_id p = producto_id) (productos d)")
  case None
  then show ?thesis
    by (simp add: get_db_def editar_producto_def query_producto_def SessionLocal_def close_def)
next
  case (Some p0)
  then have "p_id p0 = producto_id" by (rule find_id_Some)
  with Some show ?thesis
    by (simp add: get_db_def editar_producto_def query_producto_def SessionLocal_def close_def
          commit_def rollback_def setattr_producto_def Let_def)
qed

lemma eliminar_producto_efecto:
  "snd (get_db (eliminar_producto producto_id) d) = d \<or>
   snd (get_db (eliminar_producto producto_id) d) =
     d\<lparr>productos := filter (\<lambda>p. p_id p \<noteq> producto_id) (productos d)\<rparr>"
proof (cases "find (\<lambda>p. p_id p = producto_id) (productos d)")
  case None
  then show ?thesis
    by (simp add: get_db_def eliminar_producto_def query_producto_def SessionLocal_def close_def)
next
  case (Some p0)
  then have "p_id p0 = producto_id" by (rule find_id_Some)
  with Some show ?thesis
    by (simp add: get_db_def eliminar_producto_def query_producto_def SessionLocal_def close_def
          commit_def delete_producto_def)
qed

lemma crear_venta_productos:
  "productos (snd (get_db (crear_venta now venta) d)) = productos d \<or>
   productos (snd (get_db (crear_venta now venta) d)) =
     snd (resolver (pares_venta (vc_detalles venta)) (productos d))"
proof (cases "resolver (pares_venta (vc_detalles venta)) (productos d)")
  case (Pair x ps')
  show ?thesis
  proof (cases x)
    case (Inl e)
    with Pair show ?thesis by (simp add: crear_venta_falla)
  next
    case (Inr lineas)
    with Pair crear_venta_ok [of venta d lineas ps' now] show ?thesis by auto
  qed
qed

lemma crear_cuenta_pendiente_productos:
  "productos (snd (get_db (crear_cuenta_pendiente now cuenta) d)) = productos d \<or>
   productos (snd (get_db (crear_cuenta_pendiente now cuenta) d)) =
     snd (resolver (pares_cuenta (cc_detalles cuenta)) (productos d))"
proof (cases "resolver (pares_cuenta (cc_detalles cuenta)) (productos d)")
  case (Pair x ps')
  show ?thesis
  proof (cases x)
    case (Inl e)
    with Pair show ?thesis by (simp add: crear_cuenta_pendiente_falla)
  next
    case (Inr lineas)
    with Pair crear_cuenta_pendiente_ok [of cuenta d lineas ps' now] show ?thesis by auto
  qed
qed

lemma agregar_productos:
  "productos (snd (get_db (agregar_productos_cuenta_pendiente cuenta_id req) d)) = productos d \<or>
   productos (snd (get_db (agregar_productos_cuenta_pendiente cuenta_id req) d)) =
     snd (resolver (pares_cuenta (ar_detalles req)) (productos d))"
proof (cases "find (\<lambda>c. c_id c = cuenta_id \<and> c_estado c = ''pendiente'') (cuentas_pendientes d)")
  case None
  then show ?thesis by (simp add: agregar_sin_cuenta)
next
  case (Some cuenta)
  show ?thesis
  proof (cases "resolver (pares_cuenta (ar_detalles req)) (productos d)")
    case (Pair x ps')
    show ?thesis
    proof (cases x)
      case (Inl e)
      with Pair Some show ?thesis by (simp add: agregar_falla)
    next
      case (Inr lineas)
      with Pair Some show ?thesis by (simp add: agregar_ok)
    qed
  qed
qed

lemma handle_stock:
  assumes "stock_no_negativo d" and "cantidad_valida r"
  shows "stock_no_negativo (handle r d)"
proof (cases r)
  case (Crear_producto producto)
  with assms show ?thesis
    by (simp add: stock_no_negativo_def crear_producto_efecto)
next
  case (Editar_producto producto_id producto)
  with assms editar_producto_efecto [of producto_id producto d] show ?thesis
    by (auto simp: stock_no_negativo_def list_all_iff)
next
  case (Eliminar_producto producto_id)
  with assms eliminar_producto_efecto [of producto_id d] show ?thesis
    by (auto simp: stock_no_negativo_def list_all_iff)
next
  case (Crear_venta now venta)
  with assms crear_venta_productos [of now venta d]
    resolver_nonneg [of "productos d" "pares_venta (vc_detalles venta)"]
  show ?thesis by (auto simp: stock_no_negativo_def)
next
  case (Crear_cuenta_pendiente now cuenta)
  with assms crear_cuenta_pendiente_productos [of now cuenta d]
    resolver_nonneg [of "productos d" "pares_cuenta (cc_detalles cuenta)"]
  show ?thesis by (auto simp: stock_no_negativo_def)
next
  case (Agregar_productos cuenta_id req)
  with assms agregar_productos [of cuenta_id req d]
    resolver_nonneg [of "productos d" "pares_cuenta (ar_detalles req)"]
  show ?thesis by (auto simp: stock_no_negativo_def)
next
  case (Pagar_cuenta_pendiente now cuenta_id)
  with assms show ?thesis
    by (simp add: stock_no_negativo_def pagar_productos)
qed


text \<open>
  C1, as amended. The sale and account requests never make a quantity negative, and a
  product create or update stores the quantity it is given: when no product has a
  negative quantity and every product create and update of a sequence of requests
  supplies a non-negative quantity, no product has a negative quantity after the
  sequence. Nothing is asked of the quantities in the sale and account requests.
\<close>

theorem handle_all_stock:
  assumes "stock_no_negativo d" and "list_all cantidad_valida rs"
  shows "stock_no_negativo (handle_all rs d)"
  using assms
proof (induction rs arbitrary: d)
  case Nil
  then show ?case by simp
next
  case (Cons r rs)
  from Cons.prems have "stock_no_negativo (handle r d)"
    by (simp add: handle_stock)
  with Cons.prems show ?case
    by (simp add: Cons.IH)
qed

theorem handle_all_stock_witness:
  "stock_no_negativo empty_database \<and>
   list_all cantidad_valida
     [Crear_producto pan, Crear_cuenta_pendiente 3 cuenta_ana, Pagar_cuenta_pendiente 5 1] \<and>
   stock_no_negativo
     (handle_all [Crear_producto pan, Crear_cuenta_pendiente 3 cuenta_ana,
                  Pagar_cuenta_pendiente 5 1] empty_database)"
proof -
  have h1: "stock_no_negativo empty_database"
    by (simp add: stock_no_negativo_def empty_database_def)
  have h2: "list_all cantidad_valida
     [Crear_producto pan, Crear_cuenta_pendiente 3 cuenta_ana, Pagar_cuenta_pendiente 5 1]"
    by (simp add: pan_def)
  from h1 h2 handle_all_stock [OF h1 h2] show ?thesis by blast
qed

text \<open>
  C1 as stated fails: a product created with quantity \<open>-1\<close> has that quantity, and a
  product updated to quantity \<open>-3\<close> has that quantity.
\<close>

theorem stock_negativo:
  "\<not> stock_no_negativo
       (handle_all [Crear_producto (pan\<lparr>pc_cantidad := - 1\<rparr>)] empty_database) \<and>
   \<not> stock_no_negativo
       (handle_all [Crear_producto pan, Editar_producto 1 (pan\<lparr>pc_cantidad := - 3\<rparr>)]
          empty_database)"
  by (simp add: stock_no_negativo_def pan_def empty_database_def get_db_def crear_producto_def
        editar_producto_def query_producto_def setattr_producto_def SessionLocal_def close_def
        commit_def add_producto_def next_id_def Let_def)

subsection \<open>A failed sale changes nothing\<close>

lemma ejemplo_pan_alcanzable: "handle (Crear_producto pan) empty_database = ejemplo_pan"
  by (simp add: pan_def ejemplo_pan_def empty_database_def get_db_def crear_producto_def
        SessionLocal_def close_def commit_def add_producto_def next_id_def Let_def)


lemma pares_cuenta_append:
  "pares_cuenta (pre @ item # post) =
     pares_cuenta pre @ (dcc_producto_id item, dcc_cantidad item) # pares_cuenta post"
  by (simp add: pares_cuenta_def)



subsection \<open>A product named by several line items\<close>





subsection \<open>Unit prices\<close>

lemma resolver_captura_venta:
  assumes "resolver (pares_venta items) ps = (Inr lineas, ps')"
  shows "list_all2 (captura_venta ps) items (lineas_venta lineas)"
proof -
  have "list_all2 (\<lambda>(i, n) (i', n', precio). i' = i \<and> n' = n \<and>
        (\<exists>p. find (\<lambda>p. p_id p = i) ps = Some p \<and> precio = p_precio p))
          (pares_venta items) lineas"
    using assms by (rule resolver_precio)
  then have "list_all2 (\<lambda>item l. captura_venta ps item
       (case l of (producto_id, n, precio) \<Rightarrow>
            \<lparr>dv_producto_id = producto_id, dv_cantidad = n, dv_precio_unitario = precio\<rparr>))
       items lineas"
    unfolding pares_venta_def list_all2_map1
    by (rule list_all2_mono) (auto simp: captura_venta_def)
  then show ?thesis
    by (simp add: lineas_venta_def list_all2_map2)
qed

lemma resolver_captura_cuenta:
  assumes "resolver (pares_cuenta items) ps = (Inr lineas, ps')"
  shows "list_all2 (captura_cuenta ps) items (lineas_cuenta lineas)"
proof -
  have "list_all2 (\<lambda>(i, n) (i', n', precio). i' = i \<and> n' = n \<and>
        (\<exists>p. find (\<lambda>p. p_id p = i) ps = Some p \<and> precio = p_precio p))
          (pares_cuenta items) lineas"
    using assms by (rule resolver_precio)
  then have "list_all2 (\<lambda>item l. captura_cuenta ps item
       (case l of (producto_id, n, precio) \<Rightarrow>
            \<lparr>dc_producto_id = producto_id, dc_cantidad = n, dc_precio_unitario = precio\<rparr>))
       items lineas"
    unfolding pares_cuenta_def list_all2_map1
    by (rule list_all2_mono) (auto simp: captura_cuenta_def)
  then show ?thesis
    by (simp add: lineas_cuenta_def list_all2_map2)
qed

lemma editar_producto_marco:
  "ventas (snd (get_db (editar_producto producto_id producto) d)) = ventas d \<and>
   cuentas_pendientes (snd (get_db (editar_producto producto_id producto) d)) =
     cuentas_pendientes d"
  using editar_producto_efecto [of producto_id producto d] by auto

text \<open>
  C7. When a sale or a pending account is created, or line items are appended to an
  account, each new detail row has the product key and the quantity of its line item
  and, as unit price, the price the product has in the database the request starts
  from; no request changes a price while it runs. A later update of the product, of
  its price too, leaves the sales and the accounts, and so every unit price recorded
  in their detail rows, as they were.
\<close>

theorem precio_capturado:
  "(\<forall>r d'. get_db (crear_venta now venta) d = (Inr r, d') \<longrightarrow>
      (\<exists>v. ventas d' = ventas d @ [v] \<and>
           list_all2 (captura_venta (productos d)) (vc_detalles venta) (v_detalles v))) \<and>
   (\<forall>r d'. get_db (crear_cuenta_pendiente now cuenta) d = (Inr r, d') \<longrightarrow>
      (\<exists>c. cuentas_pendientes d' = cuentas_pendientes d @ [c] \<and>
           list_all2 (captura_cuenta (productos d)) (cc_detalles cuenta) (c_detalles c))) \<and>
   (\<forall>r d'. get_db (agregar_productos_cuenta_pendiente cuenta_id req) d = (Inr r, d') \<longrightarrow>
      (\<exists>nuevos. list_all2 (captura_cuenta (productos d)) (ar_detalles req) nuevos \<and>
           map c_detalles (cuentas_pendientes d') =
             map (\<lambda>c. if c_id c = cuenta_id then c_detalles c @ nuevos else c_detalles c)
               (cuentas_pendientes d))) \<and>
   ventas (snd (get_db (editar_producto producto_id producto) d)) = ventas d \<and>
   cuentas_pendientes (snd (get_db (editar_producto producto_id producto) d)) =
     cuentas_pendientes d"
proof -
  have v: "\<forall>r d'. get_db (crear_venta now venta) d = (Inr r, d') \<longrightarrow>
      (\<exists>v. ventas d' = ventas d @ [v] \<and>
           list_all2 (captura_venta (productos d)) (vc_detalles venta) (v_detalles v))"
  proof (intro allI impI)
    fix r d'
    assume a: "get_db (crear_venta now venta) d = (Inr r, d')"
    obtain x ps' where res: "resolver (pares_venta (vc_detalles venta)) (productos d) = (x, ps')"
      by (cases "resolver (pares_venta (vc_detalles venta)) (productos d)")
    show "\<exists>v. ventas d' = ventas d @ [v] \<and>
           list_all2 (captura_venta (productos d)) (vc_detalles venta) (v_detalles v)"
    proof (cases x)
      case (Inl e)
      with res a crear_venta_falla [of venta d e ps' now] show ?thesis by simp
    next
      case (Inr lineas)
      with res have r2: "resolver (pares_venta (vc_detalles venta)) (productos d) = (Inr lineas, ps')"
        by simp
      from crear_venta_ok [OF r2, of now] a
      have "ventas d' = ventas d @
          [\<lparr>v_id = next_id (map v_id (ventas d)), v_fecha = now,
            v_total = importe lineas, v_detalles = lineas_venta lineas\<rparr>]"
        by auto
      moreover have "list_all2 (captura_venta (productos d)) (vc_detalles venta) (lineas_venta lineas)"
        using r2 by (rule resolver_captura_venta)
      ultimately show ?thesis by simp
    qed
  qed
  have c: "\<forall>r d'. get_db (crear_cuenta_pendiente now cuenta) d = (Inr r, d') \<longrightarrow>
      (\<exists>c. cuentas_pendientes d' = cuentas_pendientes d @ [c] \<and>
           list_all2 (captura_cuenta (productos d)) (cc_detalles cuenta) (c_detalles c))"
  proof (intro allI impI)
    fix r d'
    assume a: "get_db (crear_cuenta_pendiente now cuenta) d = (Inr r, d')"
    obtain x ps' where res: "resolver (pares_cuenta (cc_detalles cuenta)) (productos d) = (x, ps')"
      by (cases "resolver (pares_cuenta (cc_detalles cuenta)) (productos d)")
    show "\<exists>c. cuentas_pendientes d' = cuentas_pendientes d @ [c] \<and>
           list_all2 (captura_cuenta (productos d)) (cc_detalles cuenta) (c_detalles c)"
    proof (cases x)
      case (Inl e)
      with res a crear_cuenta_pendiente_falla [of cuenta d e ps' now] show ?thesis by simp
    next
      case (Inr lineas)
      with res have r2: "resolver (pares_cuenta (cc_detalles cuenta)) (productos d) = (Inr lineas, ps')"
        by simp
      from crear_cuenta_pendiente_ok [OF r2, of now] a
      have "cuentas_pendientes d' = cuentas_pendientes d @
          [\<lparr>c_id = next_id (map c_id (cuentas_pendientes d)),
            c_nombre_cliente = cc_nombre_cliente cuenta, c_fecha_creacion = now,
            c_estado = ''pendiente'', c_detalles = lineas_cuenta lineas,
            c_total = importe lineas\<rparr>]"
        by auto
      moreover have "list_all2 (captura_cuenta (productos d)) (cc_detalles cuenta) (lineas_cuenta lineas)"
        using r2 by (rule resolver_captura_cuenta)
      ultimately show ?thesis by simp
    qed
  qed
  have g: "\<forall>r d'. get_db (agregar_productos_cuenta_pendiente cuenta_id req) d = (Inr r, d') \<longrightarrow>
      (\<exists>nuevos. list_all2 (captura_cuenta (productos d)) (ar_detalles req) nuevos \<and>
           map c_detalles (cuentas_pendientes d') =
             map (\<lambda>c. if c_id c = cuenta_id then c_detalles c @ nuevos else c_detalles c)
               (cuentas_pendientes d))"
  proof (intro allI impI)
    fix r d'
    assume a: "get_db (agregar_productos_cuenta_pendiente cuenta_id req) d = (Inr r, d')"
    obtain x ps' where res: "resolver (pares_cuenta (ar_detalles req)) (productos d) = (x, ps')"
      by (cases "resolver (pares_cuenta (ar_detalles req)) (productos d)")
    show "\<exists>nuevos. list_all2 (captura_cuenta (productos d)) (ar_detalles req) nuevos \<and>
           map c_detalles (cuentas_pendientes d') =
             map (\<lambda>c. if c_id c = cuenta_id then c_detalles c @ nuevos else c_detalles c)
               (cuentas_pendientes d)"
    proof (cases "find (\<lambda>c. c_id c = cuenta_id \<and> c_estado c = ''pendiente'') (cuentas_pendientes d)")
      case None
      with a agregar_sin_cuenta [of cuenta_id d req] show ?thesis by simp
    next
      case (Some cu)
      show ?thesis
      proof (cases x)
        case (Inl e)
        with res a Some agregar_falla [of cuenta_id d cu req e ps'] show ?thesis by simp
      next
        case (Inr lineas)
        with res have r2: "resolver (pares_cuenta (ar_detalles req)) (productos d) = (Inr lineas, ps')"
          by simp
        from agregar_ok [OF Some r2] a
        have "cuentas_pendientes d' =
           map (\<lambda>c. if c_id c = cuenta_id
                  then c\<lparr>c_detalles := c_detalles c @ lineas_cuenta lineas,
                         c_total := c_total cu + importe lineas\<rparr>
                  else c) (cuentas_pendientes d)"
          by simp
        then have "map c_detalles (cuentas_pendientes d') =
             map (\<lambda>c. if c_id c = cuenta_id then c_detalles c @ lineas_cuenta lineas
                      else c_detalles c) (cuentas_pendientes d)"
          by (simp add: comp_def if_distrib [of c_detalles] cong: if_cong)
        moreover have "list_all2 (captura_cuenta (productos d)) (ar_detalles req) (lineas_cuenta lineas)"
          using r2 by (rule resolver_captura_cuenta)
        ultimately show ?thesis by blast
      qed
    qed
  qed
  from v c g editar_producto_marco [of producto_id producto d] show ?thesis by blast
qed


lemma crear_venta_tres:
  "get_db (crear_venta 7 venta_tres) ejemplo_pan =
     (Inr \<lparr>rv_id = 1, rv_fecha = 7, rv_total = 30,
           rv_detalles = [\<lparr>rdv_producto_id = 1, rdv_cantidad = 3, rdv_precio_unitario = 10,
                           rdv_nombre_producto = Some ''pan''\<rparr>]\<rparr>,
      ejemplo_vendido)"
  by (simp add: venta_tres_def ejemplo_pan_def ejemplo_vendido_def get_db_def crear_venta_def
        query_producto_def set_cantidad_def add_venta_def commit_def SessionLocal_def close_def
        next_id_def Let_def)

theorem precio_capturado_witness:
  "get_db (crear_venta 7 venta_tres) ejemplo_pan =
     (Inr \<lparr>rv_id = 1, rv_fecha = 7, rv_total = 30,
           rv_detalles = [\<lparr>rdv_producto_id = 1, rdv_cantidad = 3, rdv_precio_unitario = 10,
                           rdv_nombre_producto = Some ''pan''\<rparr>]\<rparr>,
      ejemplo_vendido) \<and>
   (\<exists>v. ventas ejemplo_vendido = ventas ejemplo_pan @ [v] \<and>
        list_all2 (captura_venta (productos ejemplo_pan)) (vc_detalles venta_tres) (v_detalles v)) \<and>
   ventas (snd (get_db (editar_producto 1 (pan\<lparr>pc_precio := 12\<rparr>)) ejemplo_vendido)) =
     ventas ejemplo_vendido"
proof -
  note t = precio_capturado [of 7 venta_tres ejemplo_pan]
  from t [THEN conjunct1, THEN spec, THEN spec, THEN mp, OF crear_venta_tres]
  have a: "\<exists>v. ventas ejemplo_vendido = ventas ejemplo_pan @ [v] \<and>
        list_all2 (captura_venta (productos ejemplo_pan)) (vc_detalles venta_tres) (v_detalles v)" .
  have b: "ventas (snd (get_db (editar_producto 1 (pan\<lparr>pc_precio := 12\<rparr>)) ejemplo_vendido)) =
     ventas ejemplo_vendido"
    using precio_capturado [of _ _ ejemplo_vendido _ _ _ 1 "pan\<lparr>pc_precio := 12\<rparr>"] by blast
  from crear_venta_tres a b show ?thesis by blast
qed

subsection \<open>Account totals\<close>











end
